theory Spec2Isabelle
  imports Complex_Main
begin

section \<open>Document collections\<close>

text \<open>
  A collection of the document store is the list of its documents in natural order.
  \<open>updateOne\<close> changes the first document that matches the filter and reports
  \<open>matchedCount\<close>; \<open>updateMany\<close> changes every document that matches;
  \<open>findOne\<close> returns the first match.  Store I/O failures are not modelled: every
  store call returns.
\<close>

fun updateOne :: "('a \<Rightarrow> bool) \<Rightarrow> ('a \<Rightarrow> 'a) \<Rightarrow> 'a list \<Rightarrow> 'a list \<times> nat" where
  "updateOne P f [] = ([], 0)"
| "updateOne P f (x # xs) =
     (if P x then (f x # xs, 1)
      else (x # fst (updateOne P f xs), snd (updateOne P f xs)))"

definition updateMany :: "('a \<Rightarrow> bool) \<Rightarrow> ('a \<Rightarrow> 'a) \<Rightarrow> 'a list \<Rightarrow> 'a list" where
  "updateMany P f xs = map (\<lambda>x. if P x then f x else x) xs"

definition matchedCount :: "('a \<Rightarrow> bool) \<Rightarrow> 'a list \<Rightarrow> nat" where
  "matchedCount P xs = length (filter P xs)"

definition findOne :: "('a \<Rightarrow> bool) \<Rightarrow> 'a list \<Rightarrow> 'a option" where
  "findOne P xs = find P xs"

section \<open>The JavaScript runtime\<close>

text \<open>
  A JavaScript number is an IEEE 754 double.  A price or an amount is a finite double,
  read as the real number it denotes; the comparisons and the truthiness test of the
  code are exact on these.  The arithmetic operators round their result, and
  \<open>String.prototype.trim\<close> strips the white space and line terminators of Unicode.
  Both belong to the runtime, which the embedding takes as a parameter.  No law of
  the four functions is used anywhere, so what is proved for every runtime holds for the
  operators of IEEE 754 and for the trim of ECMAScript.
\<close>

record JsRuntime =
  js_add :: "real \<Rightarrow> real \<Rightarrow> real"
  js_mul :: "real \<Rightarrow> real \<Rightarrow> real"
  js_div :: "real \<Rightarrow> real \<Rightarrow> real"
  js_trim :: "string \<Rightarrow> string"

section \<open>Seats (seat.schema.ts, seats.service.ts)\<close>

datatype SeatState = AVAILABLE | PAYMENT_PENDING | BOOKED | BROKEN | AISLE | BLOCKED

text \<open>
  The fields of a Seat document that the reservation flow reads or writes.  Seat ids are
  the canonical strings of the ObjectIds; prices are JavaScript numbers, finite doubles
  read as reals.
\<close>

record Seat =
  seat_id :: string
  seat_eventId :: string
  seat_label :: string
  seat_ticketType :: "string option"
  seat_basePrice :: "real option"
  seat_state :: SeatState
  pendingReservationId :: "string option"

type_synonym SeatStore = "Seat list"

record LockResult =
  success :: bool
  failedSeatIds :: "string list"

text \<open>
  atomicLockSeats, lines 103-151.  The loop makes one conditional update per requested
  seat (filter: this id and state available) and sorts the id into lockedSeatIds or
  failedSeatIds by matchedCount; a seat that does not exist fails like a seat that is
  not available.
\<close>

definition lockOne :: "string \<Rightarrow> string \<Rightarrow> SeatStore \<Rightarrow> SeatStore \<times> nat" where
  "lockOne seatId reservationId st =
     updateOne (\<lambda>s. seat_id s = seatId \<and> seat_state s = AVAILABLE)
       (\<lambda>s. s\<lparr>seat_state := PAYMENT_PENDING, pendingReservationId := Some reservationId\<rparr>) st"

fun lockLoop :: "string list \<Rightarrow> string \<Rightarrow> SeatStore \<Rightarrow> string list \<Rightarrow> string list
    \<Rightarrow> SeatStore \<times> string list \<times> string list" where
  "lockLoop [] reservationId st failed locked = (st, failed, locked)"
| "lockLoop (seatId # rest) reservationId st failed locked =
     (if snd (lockOne seatId reservationId st) = 0
      then lockLoop rest reservationId (fst (lockOne seatId reservationId st))
             (failed @ [seatId]) locked
      else lockLoop rest reservationId (fst (lockOne seatId reservationId st))
             failed (locked @ [seatId]))"

definition rollbackSeats :: "string list \<Rightarrow> SeatStore \<Rightarrow> SeatStore" where
  "rollbackSeats lockedSeatIds st =
     updateMany (\<lambda>s. seat_id s \<in> set lockedSeatIds)
       (\<lambda>s. s\<lparr>seat_state := AVAILABLE, pendingReservationId := None\<rparr>) st"

definition atomicLockSeats :: "string list \<Rightarrow> string \<Rightarrow> SeatStore \<Rightarrow> SeatStore \<times> LockResult" where
  "atomicLockSeats seatIds reservationId st =
     (case lockLoop seatIds reservationId st [] [] of
        (st1, failed, locked) \<Rightarrow>
          if length failed > 0
          then ((if length locked > 0 then rollbackSeats locked st1 else st1),
                \<lparr>success = False, failedSeatIds = failed\<rparr>)
          else (st1, \<lparr>success = True, failedSeatIds = []\<rparr>))"

text \<open>
  atomicConfirmSeats, lines 153-167.  Every matched seat goes from payment_pending to
  booked, so the returned modifiedCount is the number of matched documents.
\<close>

definition confirmFilter :: "string list \<Rightarrow> string \<Rightarrow> Seat \<Rightarrow> bool" where
  "confirmFilter seatIds reservationId s \<longleftrightarrow>
     seat_id s \<in> set seatIds \<and> seat_state s = PAYMENT_PENDING
     \<and> pendingReservationId s = Some reservationId"

definition atomicConfirmSeats :: "string list \<Rightarrow> string \<Rightarrow> SeatStore \<Rightarrow> SeatStore \<times> nat" where
  "atomicConfirmSeats seatIds reservationId st =
     (updateMany (confirmFilter seatIds reservationId)
        (\<lambda>s. s\<lparr>seat_state := BOOKED, pendingReservationId := None\<rparr>) st,
      matchedCount (confirmFilter seatIds reservationId) st)"

text \<open>
  setSeatsToPaymentPending, lines 169-184.  The filter has the seat ids and the two
  states only.  The count is modifiedCount: the Seat schema has \<open>timestamps: true\<close>,
  so the update writes \<open>updatedAt\<close> on every matched document and every matched
  document is a modified one.
\<close>

definition pendingFilter :: "string list \<Rightarrow> Seat \<Rightarrow> bool" where
  "pendingFilter seatIds s \<longleftrightarrow>
     seat_id s \<in> set seatIds \<and> (seat_state s = AVAILABLE \<or> seat_state s = PAYMENT_PENDING)"

definition setSeatsToPaymentPending :: "string list \<Rightarrow> string \<Rightarrow> SeatStore \<Rightarrow> SeatStore \<times> nat" where
  "setSeatsToPaymentPending seatIds reservationId st =
     (updateMany (pendingFilter seatIds)
        (\<lambda>s. s\<lparr>seat_state := PAYMENT_PENDING, pendingReservationId := Some reservationId\<rparr>) st,
      matchedCount (pendingFilter seatIds) st)"

text \<open>releaseSeatsByReservation, lines 186-193.\<close>

definition releaseFilter :: "string \<Rightarrow> Seat \<Rightarrow> bool" where
  "releaseFilter reservationId s \<longleftrightarrow>
     pendingReservationId s = Some reservationId \<and> seat_state s = PAYMENT_PENDING"

definition releaseSeatsByReservation :: "string \<Rightarrow> SeatStore \<Rightarrow> SeatStore \<times> nat" where
  "releaseSeatsByReservation reservationId st =
     (updateMany (releaseFilter reservationId)
        (\<lambda>s. s\<lparr>seat_state := AVAILABLE, pendingReservationId := None\<rparr>) st,
      matchedCount (releaseFilter reservationId) st)"

text \<open>
  setSeatBroken, lines 195-207: findByIdAndUpdate with the update
  \<open>{ state: broken ? BROKEN : AVAILABLE }\<close> and nothing else; None is the
  NotFoundException.
\<close>

definition setSeatBroken :: "string \<Rightarrow> bool \<Rightarrow> SeatStore \<Rightarrow> SeatStore \<times> Seat option" where
  "setSeatBroken seatId broken st =
     (let st' = fst (updateOne (\<lambda>s. seat_id s = seatId)
                  (\<lambda>s. s\<lparr>seat_state := (if broken then BROKEN else AVAILABLE)\<rparr>) st)
      in (st', findOne (\<lambda>s. seat_id s = seatId) st'))"

text \<open>The invariant of the data model: a hold reference exactly on the pending seats.\<close>

definition holdInvariant :: "Seat \<Rightarrow> bool" where
  "holdInvariant s \<longleftrightarrow> (pendingReservationId s \<noteq> None) = (seat_state s = PAYMENT_PENDING)"

definition pendingUnder :: "string \<Rightarrow> Seat \<Rightarrow> bool" where
  "pendingUnder reservationId s \<longleftrightarrow>
     seat_state s = PAYMENT_PENDING \<and> pendingReservationId s = Some reservationId"

section \<open>Events and pricing (event.schema.ts, bookings.service.ts)\<close>

datatype CommissionType = percentage | flat

record Commission =
  commission_type :: CommissionType
  commission_value :: real

record TicketType =
  tt_name :: string
  adultPrice :: real
  childPrice :: real

record Event =
  event_id :: string
  defaultPrice :: real
  ticketTypes :: "TicketType list"
  event_commission :: "Commission option"
  ticketSaleStartDate :: "int option"
  ticketSaleEndDate :: "int option"
  isTicketSaleEnabled :: bool

record AmountSummary =
  subtotal :: real
  commission :: real
  taxes :: real
  total :: real

datatype AgeClass = Adult | Child

record SeatTicketAssignment =
  assignment_seatId :: string
  assignment_ticketType :: AgeClass

text \<open>
  The ticketTypeMap of both pricing functions: \<open>forEach\<close> over the event's ticket types,
  \<open>Map.set\<close> for every type whose name is truthy (not the empty string), so a later
  type of the same name replaces an earlier one.
\<close>

definition buildTicketTypeMap :: "TicketType list \<Rightarrow> (string \<rightharpoonup> real \<times> real)" where
  "buildTicketTypeMap tts =
     foldl (\<lambda>m tt. if tt_name tt \<noteq> [] then m(tt_name tt \<mapsto> (adultPrice tt, childPrice tt)) else m)
       Map.empty tts"

definition buildAssignmentMap :: "SeatTicketAssignment list \<Rightarrow> (string \<rightharpoonup> AgeClass)" where
  "buildAssignmentMap seatAssignments =
     foldl (\<lambda>m a. m(assignment_seatId a \<mapsto> assignment_ticketType a)) Map.empty seatAssignments"

text \<open>\<open>seatObj.ticketType ? String(seatObj.ticketType).trim() : null\<close>\<close>

definition seatTicketTypeOf :: "JsRuntime \<Rightarrow> Seat \<Rightarrow> string option" where
  "seatTicketTypeOf rt s =
     (case seat_ticketType s of None \<Rightarrow> None
      | Some t \<Rightarrow> if t = [] then None else Some (js_trim rt t))"

text \<open>
  The two fall-back branches shared by both pricing functions:
  \<open>basePrice && basePrice > 0\<close>, else \<open>defaultPrice || 0\<close>.
\<close>

definition basePriceOrDefault :: "Event \<Rightarrow> Seat \<Rightarrow> real" where
  "basePriceOrDefault ev s =
     (case seat_basePrice s of
        Some p \<Rightarrow> if p \<noteq> 0 \<and> p > 0 then p else defaultPrice ev
      | None \<Rightarrow> defaultPrice ev)"

text \<open>
  The price of one seat, lines 883-895 (and 776-800 with the adult price): the trimmed
  ticket type of the seat is looked up in the map, whose keys are the names of the
  ticket types as they are stored (line 864).
\<close>

definition assignedSeatPrice ::
    "JsRuntime \<Rightarrow> (string \<rightharpoonup> real \<times> real) \<Rightarrow> (string \<rightharpoonup> AgeClass) \<Rightarrow> Event \<Rightarrow> Seat \<Rightarrow> real" where
  "assignedSeatPrice rt ticketTypeMap assignmentMap ev s =
     (let ticketType = (case assignmentMap (seat_id s) of None \<Rightarrow> Adult | Some a \<Rightarrow> a)
      in case seatTicketTypeOf rt s of
           None \<Rightarrow> basePriceOrDefault ev s
         | Some t \<Rightarrow>
             if t = [] then basePriceOrDefault ev s
             else (case ticketTypeMap t of
                     None \<Rightarrow> basePriceOrDefault ev s
                   | Some prices \<Rightarrow> if ticketType = Adult then fst prices else snd prices))"

text \<open>
  The commission, lines 901-909: \<open>subtotal * (value / 100)\<close> or
  \<open>value * seats.length\<close>, in the arithmetic of the runtime.
\<close>

definition commissionOf :: "JsRuntime \<Rightarrow> Event \<Rightarrow> real \<Rightarrow> nat \<Rightarrow> real" where
  "commissionOf rt ev sub n =
     (case event_commission ev of
        None \<Rightarrow> 0
      | Some c \<Rightarrow> if commission_type c = percentage
                  then js_mul rt sub (js_div rt (commission_value c) 100)
                  else js_mul rt (commission_value c) (real n))"

text \<open>
  calculateAmountWithSeatAssignments, lines 849-920: \<open>subtotal += price\<close> for every
  seat in turn, from 0, and \<open>subtotal + commission + taxes\<close>.
\<close>

definition calculateAmountWithSeatAssignments ::
    "JsRuntime \<Rightarrow> Seat list \<Rightarrow> Event \<Rightarrow> SeatTicketAssignment list \<Rightarrow> AmountSummary" where
  "calculateAmountWithSeatAssignments rt seatDocs ev seatAssignments =
     (let ticketTypeMap = buildTicketTypeMap (ticketTypes ev);
          assignmentMap = buildAssignmentMap seatAssignments;
          sub = foldl (\<lambda>acc s. js_add rt acc (assignedSeatPrice rt ticketTypeMap assignmentMap ev s))
                  0 seatDocs;
          com = commissionOf rt ev sub (length seatDocs);
          tax = 0
      in \<lparr>subtotal = sub, commission = com, taxes = tax,
          total = js_add rt (js_add rt sub com) tax\<rparr>)"

text \<open>
  calculateAmount, lines 744-847: the adult price of the tier for every seat, and the
  average-price adjustment when the number of persons is not the number of seats.  With
  no seat and a positive number of persons the average is \<open>0 / 0\<close>, the summary holds
  NaN and cannot be stored; None stands for that summary.
\<close>

definition calculateAmount ::
    "JsRuntime \<Rightarrow> Seat list \<Rightarrow> Event \<Rightarrow> real \<Rightarrow> real \<Rightarrow> AmountSummary option" where
  "calculateAmount rt seatDocs ev adults kids =
     (let ticketTypeMap = buildTicketTypeMap (ticketTypes ev);
          adultMultiplier = 1.0;
          kidMultiplier = 0.5;
          seatPrices = map (assignedSeatPrice rt ticketTypeMap Map.empty ev) seatDocs;
          baseSubtotal = foldl (\<lambda>sum price. js_add rt sum price) 0 seatPrices;
          totalPersons = js_add rt adults kids
      in if totalPersons > 0 \<and> totalPersons \<noteq> real (length seatDocs) \<and> seatDocs = [] then None
         else
           (let adjustedSubtotal =
                  (if totalPersons > 0 \<and> totalPersons \<noteq> real (length seatDocs)
                   then (let avgSeatPrice = js_div rt baseSubtotal (real (length seatDocs))
                         in js_add rt (js_mul rt (js_mul rt adults avgSeatPrice) adultMultiplier)
                                      (js_mul rt (js_mul rt kids avgSeatPrice) kidMultiplier))
                   else baseSubtotal);
                com = commissionOf rt ev adjustedSubtotal (length seatDocs);
                tax = 0
            in Some \<lparr>subtotal = adjustedSubtotal, commission = com, taxes = tax,
                     total = js_add rt (js_add rt adjustedSubtotal com) tax\<rparr>))"

text \<open>
  The pricing rule in the words of the specification, for comparison with the code.  The
  tier of a seat is the ticket type of the event that carries the seat's ticket type as
  its name (the last one declared, should several carry it); the age class of a seat
  is the one of its assignment (the last one given, should the list name the seat twice),
  adult when the list does not name the seat.  The unit price is the adult or child price
  of the tier when the event has it, else the seat's own price when that is greater than
  zero, else the default price of the event.
\<close>

definition specTier :: "Event \<Rightarrow> Seat \<Rightarrow> TicketType option" where
  "specTier ev s =
     (case seat_ticketType s of
        None \<Rightarrow> None
      | Some name \<Rightarrow> find (\<lambda>tt. tt_name tt = name) (rev (ticketTypes ev)))"

definition specAgeClass :: "SeatTicketAssignment list \<Rightarrow> Seat \<Rightarrow> AgeClass" where
  "specAgeClass seatAssignments s =
     (case find (\<lambda>a. assignment_seatId a = seat_id s) (rev seatAssignments) of
        None \<Rightarrow> Adult | Some a \<Rightarrow> assignment_ticketType a)"

definition specUnitPrice :: "Event \<Rightarrow> SeatTicketAssignment list \<Rightarrow> Seat \<Rightarrow> real" where
  "specUnitPrice ev seatAssignments s =
     (case specTier ev s of
        Some tt \<Rightarrow> (case specAgeClass seatAssignments s of
                      Adult \<Rightarrow> adultPrice tt | Child \<Rightarrow> childPrice tt)
      | None \<Rightarrow>
          (case seat_basePrice s of
             Some p \<Rightarrow> if p > 0 then p else defaultPrice ev
           | None \<Rightarrow> defaultPrice ev))"

text \<open>
  A seat whose ticket type, when it has one, is a non-empty string that trimming leaves
  as it is: a name without white space around it.
\<close>

definition plainTicketType :: "JsRuntime \<Rightarrow> Seat \<Rightarrow> bool" where
  "plainTicketType rt s =
     (case seat_ticketType s of None \<Rightarrow> True | Some t \<Rightarrow> t \<noteq> [] \<and> js_trim rt t = t)"

section \<open>Reservations and bookings (seat-lock, seat-lock-backup and booking schemas)\<close>

datatype ReservationStatus = PENDING_PAYMENT | COMPLETED | CANCELLED

abbreviation CART_TO_PAYMENT :: int where "CART_TO_PAYMENT \<equiv> - 1"
abbreviation IN_PAYMENT_GATEWAY :: int where "IN_PAYMENT_GATEWAY \<equiv> - 2"
abbreviation TIMEOUT :: int where "TIMEOUT \<equiv> - 3"
abbreviation PAYMENT_SUCCESS :: int where "PAYMENT_SUCCESS \<equiv> 1"

text \<open>
  A SeatLock document.  Dates are milliseconds since the epoch.  The billing fields,
  which no modelled decision reads, are left out.
\<close>

record SeatLock =
  lock_id :: string
  lock_eventId :: string
  lock_buyerId :: "string option"
  lock_seatIds :: "string list"
  lock_status :: ReservationStatus
  numericState :: int
  expiresAt :: int
  amountSummary :: "AmountSummary option"
  paymentIntentId :: "string option"
  phoneNumber :: "string option"
  customerName :: "string option"
  customerEmail :: "string option"

record SeatLockBackup =
  backup_id :: string
  backup_seatIds :: "string list"
  backup_numericState :: int
  backup_expiresAt :: int
  backup_paymentIntentId :: "string option"

datatype PaymentState = PENDING | PROCESSING | SUCCESS | FAILED

text \<open>A Booking document; its generated id is a counter value.\<close>

record Booking =
  booking_id :: nat
  booking_reservationId :: string
  booking_eventId :: string
  booking_seatId :: string
  pricePaid :: real
  commissionAmount :: real
  paymentState :: PaymentState
  dialogPaymentId :: "string option"

record Sys =
  seats :: SeatStore
  seatLocks :: "SeatLock list"
  seatLockBackups :: "SeatLockBackup list"
  bookings :: "Booking list"
  events :: "Event list"
  nextBookingId :: nat

datatype error = NotFoundException string | BadRequestException string | Error string

text \<open>JavaScript truthiness of an optional string.\<close>

definition truthy :: "string option \<Rightarrow> bool" where
  "truthy v = (case v of None \<Rightarrow> False | Some s \<Rightarrow> s \<noteq> [])"

text \<open>\<open>a || b\<close> on optional strings: the left value when it is truthy, else the right one.\<close>

definition jsOr :: "string option \<Rightarrow> string option \<Rightarrow> string option" where
  "jsOr a b = (if truthy a then a else b)"

text \<open>
  The first truthy value of a chain of \<open>||\<close>, for the chains whose result is only
  tested for truthiness or used when truthy.
\<close>

fun firstTruthy :: "string option list \<Rightarrow> string option" where
  "firstTruthy [] = None"
| "firstTruthy (v # vs) = (if truthy v then v else firstTruthy vs)"

definition findLockById :: "string \<Rightarrow> SeatLock list \<Rightarrow> SeatLock option" where
  "findLockById reservationId locks = findOne (\<lambda>l. lock_id l = reservationId) locks"

text \<open>
  \<open>seatLock.save()\<close> on a loaded document writes the fields the caller changed to the
  document of that id.
\<close>

definition saveLock :: "string \<Rightarrow> (SeatLock \<Rightarrow> SeatLock) \<Rightarrow> SeatLock list \<Rightarrow> SeatLock list" where
  "saveLock reservationId f locks = fst (updateOne (\<lambda>l. lock_id l = reservationId) f locks)"

definition bookingsOf :: "string \<Rightarrow> Booking list \<Rightarrow> Booking list" where
  "bookingsOf reservationId bs = filter (\<lambda>b. booking_reservationId b = reservationId) bs"

definition seatsFindOne :: "string \<Rightarrow> SeatStore \<Rightarrow> Seat option" where
  "seatsFindOne seatId st = findOne (\<lambda>s. seat_id s = seatId) st"

definition findByEventAndIds :: "string \<Rightarrow> string list \<Rightarrow> SeatStore \<Rightarrow> Seat list" where
  "findByEventAndIds eventId seatIds st =
     filter (\<lambda>s. seat_eventId s = eventId \<and> seat_id s \<in> set seatIds) st"

definition findEvent :: "string \<Rightarrow> Event list \<Rightarrow> Event option" where
  "findEvent eventId evs = findOne (\<lambda>e. event_id e = eventId) evs"

section \<open>Reservation manager (bookings.service.ts)\<close>

text \<open>cancelReservation, lines 611-625.\<close>

definition cancelReservation :: "string \<Rightarrow> Sys \<Rightarrow> Sys \<times> (error + string)" where
  "cancelReservation reservationId st =
     (case findLockById reservationId (seatLocks st) of
        None \<Rightarrow> (st, Inl (NotFoundException ''Reservation not found''))
      | Some seatLock \<Rightarrow>
          (st\<lparr>seats := fst (releaseSeatsByReservation reservationId (seats st)),
              seatLocks := saveLock reservationId (\<lambda>l. l\<lparr>lock_status := CANCELLED\<rparr>) (seatLocks st)\<rparr>,
           Inr reservationId))"

record ConfirmResult =
  confirm_reservationId :: string
  confirm_bookings :: "nat list"
  confirmedSeats :: "string list"

text \<open>
  The collaborators that confirmBooking calls after its store writes: the Firebase
  Admin SDK and the message service.  The SMS step swallows its failures.
\<close>

record NotifyEnv =
  firebaseInitialized :: bool
  firestoreAvailable :: bool
  sendBookingMessageResult :: bool

text \<open>
  One booking document, lines 336-358: \<open>seat.basePrice || total / seatIds.length\<close> and
  the commission share, from \<open>seatLock.amountSummary || { total: 0, commission: 0 }\<close>.
\<close>

definition newBooking :: "JsRuntime \<Rightarrow> SeatLock \<Rightarrow> Seat \<Rightarrow> string \<Rightarrow> nat \<Rightarrow> Booking" where
  "newBooking rt seatLock seat seatId newId =
     (let tot = (case amountSummary seatLock of None \<Rightarrow> 0 | Some a \<Rightarrow> total a);
          com = (case amountSummary seatLock of None \<Rightarrow> 0 | Some a \<Rightarrow> commission a);
          n = real (length (lock_seatIds seatLock))
      in \<lparr>booking_id = newId,
          booking_reservationId = lock_id seatLock,
          booking_eventId = lock_eventId seatLock,
          booking_seatId = seatId,
          pricePaid = (case seat_basePrice seat of
                         Some p \<Rightarrow> if p \<noteq> 0 then p else js_div rt tot n
                       | None \<Rightarrow> js_div rt tot n),
          commissionAmount = js_div rt com n,
          paymentState = PENDING,
          dialogPaymentId = None\<rparr>)"

text \<open>
  The \<open>Promise.all\<close> over the seat ids, lines 328-377: a booking is saved for every
  seat id whose seat is found; the flag is False when some \<open>findOne\<close> threw.
\<close>

fun createBookings :: "JsRuntime \<Rightarrow> SeatLock \<Rightarrow> SeatStore \<Rightarrow> string list \<Rightarrow> nat \<Rightarrow> Booking list \<times> nat \<times> bool" where
  "createBookings rt seatLock seatDocs [] newId = ([], newId, True)"
| "createBookings rt seatLock seatDocs (seatId # rest) newId =
     (case seatsFindOne seatId seatDocs of
        None \<Rightarrow>
          (case createBookings rt seatLock seatDocs rest newId of
             (bs, n, ok) \<Rightarrow> (bs, n, False))
      | Some seat \<Rightarrow>
          (case createBookings rt seatLock seatDocs rest (Suc newId) of
             (bs, n, ok) \<Rightarrow> (newBooking rt seatLock seat seatId newId # bs, n, ok)))"

text \<open>Lines 395-484: the checks and calls that can still throw after the store writes.\<close>

definition notifyPhase :: "NotifyEnv \<Rightarrow> SeatLock \<Rightarrow> Sys \<Rightarrow> error option" where
  "notifyPhase env seatLock st =
     (if \<not> truthy (phoneNumber seatLock) then Some (Error ''Phone number is required'')
      else if \<not> firebaseInitialized env then Some (Error ''Firebase is not initialized'')
      else if \<not> firestoreAvailable env then Some (Error ''Firestore is not available'')
      else if findEvent (lock_eventId seatLock) (events st) = None
        then Some (NotFoundException ''Event not found'')
      else if \<not> list_all (\<lambda>seatId. seatsFindOne seatId (seats st) \<noteq> None) (lock_seatIds seatLock)
        then Some (NotFoundException ''Seat not found'')
      else if \<not> sendBookingMessageResult env then Some (Error ''Failed to save booking message'')
      else None)"

definition finishConfirm :: "NotifyEnv \<Rightarrow> SeatLock \<Rightarrow> Booking list \<Rightarrow> Sys \<Rightarrow> Sys \<times> (error + ConfirmResult)" where
  "finishConfirm env seatLock bs st =
     (case notifyPhase env seatLock st of
        Some e \<Rightarrow> (st, Inl e)
      | None \<Rightarrow>
          (st, Inr \<lparr>confirm_reservationId = lock_id seatLock,
                    confirm_bookings = map booking_id bs,
                    confirmedSeats = lock_seatIds seatLock\<rparr>))"

text \<open>Lines 300-378: confirm the seats, complete the reservation, create the bookings.\<close>

definition confirmSeatsAndBook ::
    "JsRuntime \<Rightarrow> NotifyEnv \<Rightarrow> string \<Rightarrow> string option \<Rightarrow> SeatLock \<Rightarrow> Sys \<Rightarrow> Sys \<times> (error + ConfirmResult)" where
  "confirmSeatsAndBook rt env reservationId paymentIntentIdArg seatLock st =
     (case atomicConfirmSeats (lock_seatIds seatLock) reservationId (seats st) of
        (seats1, confirmedCount) \<Rightarrow>
          if confirmedCount \<noteq> length (lock_seatIds seatLock)
          then (st\<lparr>seats := seats1\<rparr>, Inl (BadRequestException ''Some seats could not be confirmed''))
          else
            (let st1 = st\<lparr>seats := seats1,
                           seatLocks := saveLock reservationId
                             (\<lambda>l. l\<lparr>lock_status := COMPLETED,
                                      paymentIntentId := (if truthy paymentIntentIdArg
                                                          then paymentIntentIdArg
                                                          else paymentIntentId l)\<rparr>)
                             (seatLocks st)\<rparr>;
                 existingBookings = bookingsOf reservationId (bookings st1)
             in if length existingBookings > 0
                then finishConfirm env seatLock existingBookings st1
                else
                  (case createBookings rt seatLock (seats st1) (lock_seatIds seatLock) (nextBookingId st1) of
                     (created, newId, ok) \<Rightarrow>
                       (let st2 = st1\<lparr>bookings := bookings st1 @ created, nextBookingId := newId\<rparr>
                        in if \<not> ok then (st2, Inl (NotFoundException ''Seat not found''))
                           else finishConfirm env seatLock created st2))))"

text \<open>
  confirmBooking, lines 231-568.  \<open>now\<close> is the value of \<open>new Date()\<close> at the expiry
  check of line 295.
\<close>

definition confirmBooking ::
    "JsRuntime \<Rightarrow> NotifyEnv \<Rightarrow> string \<Rightarrow> string option \<Rightarrow> int \<Rightarrow> Sys \<Rightarrow> Sys \<times> (error + ConfirmResult)" where
  "confirmBooking rt env reservationId paymentIntentIdArg now st =
     (case findLockById reservationId (seatLocks st) of
        None \<Rightarrow> (st, Inl (NotFoundException ''Reservation not found''))
      | Some seatLock \<Rightarrow>
          if lock_status seatLock = COMPLETED
             \<and> length (bookingsOf reservationId (bookings st)) > 0
          then
            (st\<lparr>seatLocks :=
                  (if truthy paymentIntentIdArg \<and> \<not> truthy (paymentIntentId seatLock)
                   then saveLock reservationId (\<lambda>l. l\<lparr>paymentIntentId := paymentIntentIdArg\<rparr>)
                          (seatLocks st)
                   else seatLocks st)\<rparr>,
             Inr \<lparr>confirm_reservationId = reservationId,
                  confirm_bookings = map booking_id (bookingsOf reservationId (bookings st)),
                  confirmedSeats = lock_seatIds seatLock\<rparr>)
          else if lock_status seatLock \<noteq> PENDING_PAYMENT \<and> lock_status seatLock \<noteq> COMPLETED
          then (st, Inl (BadRequestException ''Reservation is not in pending payment state''))
          else if now > expiresAt seatLock
          then (fst (cancelReservation reservationId st),
                Inl (BadRequestException ''Reservation has expired''))
          else confirmSeatsAndBook rt env reservationId paymentIntentIdArg seatLock st)"

record CreateBookingDto =
  dto_eventId :: string
  dto_seatIds :: "string list"
  dto_buyerId :: "string option"
  dto_holdSeconds :: "int option"

definition isSalePeriodActive :: "Event \<Rightarrow> int \<Rightarrow> bool" where
  "isSalePeriodActive ev now \<longleftrightarrow>
     (case ticketSaleStartDate ev of None \<Rightarrow> True | Some d \<Rightarrow> d \<le> now)
     \<and> (case ticketSaleEndDate ev of None \<Rightarrow> True | Some d \<Rightarrow> d \<ge> now)"

text \<open>
  createReservation, lines 32-188.  \<open>uuid\<close> is the value of \<open>uuidv4()\<close> and \<open>now\<close> the
  clock.  Saving the new document fails when a document of that id exists (the unique
  index on the id); the seats the call locked stay locked then.
\<close>

definition createReservation :: "JsRuntime \<Rightarrow> CreateBookingDto \<Rightarrow> string \<Rightarrow> int \<Rightarrow> Sys \<Rightarrow> Sys \<times> (error + string)" where
  "createReservation rt dto uuid now st =
     (let eventId = dto_eventId dto; seatIds = dto_seatIds dto;
          holdSeconds = (case dto_holdSeconds dto of None \<Rightarrow> 600 | Some h \<Rightarrow> h)
      in if eventId = [] then (st, Inl (BadRequestException ''eventId is required''))
         else if seatIds = [] then (st, Inl (BadRequestException ''seatIds must be a non-empty array''))
         else
           (case findEvent eventId (events st) of
              None \<Rightarrow> (st, Inl (NotFoundException ''Event not found''))
            | Some ev \<Rightarrow>
                if \<not> isTicketSaleEnabled ev
                then (st, Inl (BadRequestException ''Ticket sales are currently disabled for this event''))
                else if \<not> isSalePeriodActive ev now
                then (st, Inl (BadRequestException ''Ticket sales are not currently available''))
                else
                  (let seatDocs = findByEventAndIds eventId seatIds (seats st)
                   in if length seatDocs \<noteq> length seatIds
                      then (st, Inl (BadRequestException ''Some seats not found or do not belong to this event''))
                      else
                        (let reservationId = ''reservation_'' @ uuid;
                             expires = now + holdSeconds * 1000
                         in case atomicLockSeats seatIds reservationId (seats st) of
                              (seats1, lockResult) \<Rightarrow>
                                if \<not> success lockResult
                                then (st\<lparr>seats := seats1\<rparr>,
                                      Inl (BadRequestException ''Some seats are no longer available''))
                                else if findLockById reservationId (seatLocks st) \<noteq> None
                                then (st\<lparr>seats := seats1\<rparr>,
                                      Inl (BadRequestException ''Failed to create reservation''))
                                else
                                  (st\<lparr>seats := seats1,
                                      seatLocks := seatLocks st @
                                        [\<lparr>lock_id = reservationId,
                                          lock_eventId = eventId,
                                          lock_buyerId = dto_buyerId dto,
                                          lock_seatIds = seatIds,
                                          lock_status = PENDING_PAYMENT,
                                          numericState = CART_TO_PAYMENT,
                                          expiresAt = expires,
                                          amountSummary =
                                            calculateAmount rt seatDocs ev (real (length seatDocs)) 0,
                                          paymentIntentId = None,
                                          phoneNumber = None,
                                          customerName = None,
                                          customerEmail = None\<rparr>]\<rparr>,
                                   Inr reservationId)))))"

record UpdateTicketsDto =
  dto_adults :: "real option"
  dto_kids :: "real option"
  dto_seatAssignments :: "SeatTicketAssignment list"

text \<open>
  updateTickets, lines 190-229.  A summary that holds NaN is rejected when the document
  is saved.
\<close>

definition updateTickets :: "JsRuntime \<Rightarrow> string \<Rightarrow> UpdateTicketsDto \<Rightarrow> Sys \<Rightarrow> Sys \<times> (error + AmountSummary)" where
  "updateTickets rt reservationId dto st =
     (case findLockById reservationId (seatLocks st) of
        None \<Rightarrow> (st, Inl (NotFoundException ''Reservation not found''))
      | Some seatLock \<Rightarrow>
          if lock_status seatLock \<noteq> PENDING_PAYMENT
          then (st, Inl (BadRequestException ''Reservation is not in pending payment state''))
          else
            (case findEvent (lock_eventId seatLock) (events st) of
               None \<Rightarrow> (st, Inl (NotFoundException ''Event not found''))
             | Some ev \<Rightarrow>
                 (let seatDocs = findByEventAndIds (lock_eventId seatLock) (lock_seatIds seatLock) (seats st);
                      adults = (case dto_adults dto of None \<Rightarrow> 0 | Some a \<Rightarrow> a);
                      kids = (case dto_kids dto of None \<Rightarrow> 0 | Some k \<Rightarrow> k);
                      summary =
                        (if length (dto_seatAssignments dto) > 0
                         then Some (calculateAmountWithSeatAssignments rt seatDocs ev (dto_seatAssignments dto))
                         else calculateAmount rt seatDocs ev adults kids)
                  in case summary of
                       None \<Rightarrow> (st, Inl (Error ''ValidationError''))
                     | Some a \<Rightarrow>
                         (st\<lparr>seatLocks := saveLock reservationId (\<lambda>l. l\<lparr>amountSummary := Some a\<rparr>)
                                              (seatLocks st)\<rparr>,
                          Inr a))))"

section \<open>Expiry (seat-lock-expiry.service.ts, the TTL index of the SeatLock schema)\<close>

text \<open>The scan predicate of checkExpiredReservations, lines 22-26.\<close>

definition isExpiredCart :: "int \<Rightarrow> SeatLock \<Rightarrow> bool" where
  "isExpiredCart now l \<longleftrightarrow>
     lock_status l = PENDING_PAYMENT \<and> numericState l = CART_TO_PAYMENT \<and> expiresAt l < now"

text \<open>The body of the loop, lines 28-41.\<close>

definition expireLock :: "Sys \<Rightarrow> SeatLock \<Rightarrow> Sys" where
  "expireLock st lock =
     st\<lparr>seats := fst (releaseSeatsByReservation (lock_id lock) (seats st)),
        seatLocks := saveLock (lock_id lock)
                       (\<lambda>l. l\<lparr>lock_status := CANCELLED, numericState := TIMEOUT\<rparr>) (seatLocks st)\<rparr>"

definition checkExpiredReservations :: "int \<Rightarrow> Sys \<Rightarrow> Sys" where
  "checkExpiredReservations now st =
     foldl expireLock st (filter (isExpiredCart now) (seatLocks st))"

text \<open>
  The index declared on the SeatLock collection, line 152:
  \<open>SeatLockSchema.index({ expiresAt: 1 }, { expireAfterSeconds: 0 })\<close>.  The store's
  TTL monitor deletes a document once the indexed date plus expireAfterSeconds has
  passed; a partial filter expression, when the index has one, restricts the documents
  the index covers.
\<close>

record TTLIndex =
  expireAfterSeconds :: int
  partialFilterExpression :: "(SeatLock \<Rightarrow> bool) option"

definition SeatLockSchema_ttl :: TTLIndex where
  "SeatLockSchema_ttl = \<lparr>expireAfterSeconds = 0, partialFilterExpression = None\<rparr>"

definition ttlExpired :: "TTLIndex \<Rightarrow> int \<Rightarrow> SeatLock \<Rightarrow> bool" where
  "ttlExpired idx now l \<longleftrightarrow>
     expiresAt l + expireAfterSeconds idx * 1000 < now
     \<and> (case partialFilterExpression idx of None \<Rightarrow> True | Some P \<Rightarrow> P l)"

definition ttlPurge :: "TTLIndex \<Rightarrow> int \<Rightarrow> SeatLock list \<Rightarrow> SeatLock list" where
  "ttlPurge idx now locks = filter (\<lambda>l. \<not> ttlExpired idx now l) locks"

section \<open>Payments (payments.service.ts)\<close>

record DialogGenieCustomerDto =
  customer_name :: string
  customer_email :: string
  customer_phoneNumber :: string

text \<open>
  What createPaymentIntent reads from outside the store: the configuration, the phone
  number of the buyer's profile, the reply of the gateway (None when the request
  failed, else the payment URL and the transaction id of the reply), whether the URL
  parses, and the text of \<open>Date.now()\<close>.
\<close>

record GatewayEnv =
  DIALOG_GENIE_API_URL :: "string option"
  DIALOG_GENIE_API_KEY :: "string option"
  profilePhoneNumber :: "string option"
  gatewayReply :: "(string option \<times> string option) option"
  paymentUrlParses :: bool
  dateNowText :: string

definition setPaymentStateOf :: "string \<Rightarrow> (Booking \<Rightarrow> Booking) \<Rightarrow> Booking list \<Rightarrow> Booking list" where
  "setPaymentStateOf reservationId f bs = updateMany (\<lambda>b. booking_reservationId b = reservationId) f bs"

text \<open>Lines 152-173: the customer fields saved on the reservation.\<close>

definition saveCustomer :: "string option \<Rightarrow> DialogGenieCustomerDto \<Rightarrow> SeatLock \<Rightarrow> SeatLock" where
  "saveCustomer userPhoneNumber customerInfo l =
     l\<lparr>phoneNumber := jsOr userPhoneNumber
                        (jsOr (Some (customer_phoneNumber customerInfo)) (phoneNumber l)),
       customerName := Some (customer_name customerInfo),
       customerEmail := Some (customer_email customerInfo)\<rparr>"

text \<open>Lines 287-315: \<open>seatLockBackupModel.create\<close>, whose failure is logged and ignored.\<close>

definition createBackup :: "SeatLock \<Rightarrow> string \<Rightarrow> SeatLockBackup list \<Rightarrow> SeatLockBackup list" where
  "createBackup seatLock transactionId backups =
     (if findOne (\<lambda>b. backup_id b = lock_id seatLock) backups \<noteq> None then backups
      else backups @ [\<lparr>backup_id = lock_id seatLock,
                        backup_seatIds = lock_seatIds seatLock,
                        backup_numericState = IN_PAYMENT_GATEWAY,
                        backup_expiresAt = expiresAt seatLock,
                        backup_paymentIntentId = Some transactionId\<rparr>])"

text \<open>
  createPaymentIntent, lines 35-430.  The Firestore document and the SMS at the end
  change nothing in the store and swallow their failures.
\<close>

definition createPaymentIntent ::
    "JsRuntime \<Rightarrow> string \<Rightarrow> DialogGenieCustomerDto option \<Rightarrow> GatewayEnv \<Rightarrow> Sys \<Rightarrow> Sys \<times> (error + string \<times> string)" where
  "createPaymentIntent rt reservationId customerInfo env st =
     (case findLockById reservationId (seatLocks st) of
        None \<Rightarrow> (st, Inl (BadRequestException ''Reservation not found''))
      | Some seatLock \<Rightarrow>
          if lock_status seatLock \<noteq> PENDING_PAYMENT
          then (st, Inl (BadRequestException ''Reservation is not in pending payment state''))
          else if amountSummary seatLock = None
          then (st, Inl (BadRequestException ''Reservation amount not calculated''))
          else
            (let st1 = st\<lparr>seats := fst (setSeatsToPaymentPending (lock_seatIds seatLock)
                                          reservationId (seats st)),
                           bookings := setPaymentStateOf reservationId
                                         (\<lambda>b. b\<lparr>paymentState := PENDING\<rparr>) (bookings st)\<rparr>
             in if \<not> truthy (DIALOG_GENIE_API_URL env)
                then (st1, Inl (BadRequestException ''Dialog Genie API URL is not configured''))
                else if \<not> truthy (DIALOG_GENIE_API_KEY env)
                then (st1, Inl (BadRequestException ''Dialog Genie API key is not configured''))
                else if js_trim rt (the (DIALOG_GENIE_API_KEY env)) = []
                        \<or> js_trim rt (the (DIALOG_GENIE_API_KEY env)) = ''your_api_key_here''
                then (st1, Inl (BadRequestException ''Dialog Genie API key is invalid''))
                else
                  (let userPhoneNumber =
                         (if truthy (lock_buyerId seatLock) then profilePhoneNumber env else None);
                       st2 = (case customerInfo of
                                None \<Rightarrow> st1
                              | Some c \<Rightarrow>
                                  st1\<lparr>seatLocks := saveLock reservationId
                                         (saveCustomer userPhoneNumber c) (seatLocks st1)\<rparr>);
                       paymentId = ''dialog_pi_'' @ reservationId @ ''_'' @ dateNowText env
                   in case gatewayReply env of
                        None \<Rightarrow> (st2, Inl (BadRequestException ''Failed to connect to Dialog Genie API''))
                      | Some (url, transactionIdOfReply) \<Rightarrow>
                          if \<not> truthy url
                          then (st2, Inl (BadRequestException
                                  ''Dialog Genie API did not return a payment URL in the response''))
                          else if \<not> paymentUrlParses env
                          then (st2, Inl (BadRequestException
                                  ''Dialog Genie API returned an invalid payment URL format''))
                          else
                            (let dialogGenieTransactionId =
                                   (if truthy transactionIdOfReply then the transactionIdOfReply
                                    else paymentId);
                                 locks3 = saveLock reservationId
                                            (\<lambda>l. l\<lparr>numericState := IN_PAYMENT_GATEWAY,
                                                     paymentIntentId := Some dialogGenieTransactionId\<rparr>)
                                            (seatLocks st2)
                             in (st2\<lparr>seatLocks := locks3,
                                     seatLockBackups := createBackup seatLock dialogGenieTransactionId
                                                          (seatLockBackups st2)\<rparr>,
                                 Inr (dialogGenieTransactionId, the url))))))"

record CallbackResult =
  callback_success :: bool
  callback_reservationId :: string

text \<open>
  The lookup of handleDialogGenieCallback, lines 506-532: by payment intent id in the
  primary collection, then by payment intent id in the backup collection and from the
  backup's id back to the primary collection.
\<close>

definition findByPaymentIntentId :: "string \<Rightarrow> SeatLock list \<Rightarrow> SeatLock option" where
  "findByPaymentIntentId paymentId locks = findOne (\<lambda>l. paymentIntentId l = Some paymentId) locks"

definition findViaBackup :: "string \<Rightarrow> Sys \<Rightarrow> SeatLock option" where
  "findViaBackup paymentId st =
     (case findOne (\<lambda>b. backup_paymentIntentId b = Some paymentId) (seatLockBackups st) of
        None \<Rightarrow> None
      | Some backupLock \<Rightarrow> findLockById (backup_id backupLock) (seatLocks st))"

definition callbackLookup :: "string \<Rightarrow> Sys \<Rightarrow> SeatLock option" where
  "callbackLookup paymentId st =
     (case findByPaymentIntentId paymentId (seatLocks st) of
        Some l \<Rightarrow> Some l
      | None \<Rightarrow> findViaBackup paymentId st)"

definition markBookings :: "string \<Rightarrow> PaymentState \<Rightarrow> string \<Rightarrow> Sys \<Rightarrow> Sys" where
  "markBookings reservationId ps paymentId st =
     st\<lparr>bookings := setPaymentStateOf reservationId
                      (\<lambda>b. b\<lparr>paymentState := ps, dialogPaymentId := Some paymentId\<rparr>) (bookings st)\<rparr>"

text \<open>
  handleDialogGenieCallback, lines 500-745.  The Firestore updates change nothing in the
  store and swallow their failures.
\<close>

definition handleDialogGenieCallback ::
    "JsRuntime \<Rightarrow> NotifyEnv \<Rightarrow> string \<Rightarrow> string \<Rightarrow> int \<Rightarrow> Sys \<Rightarrow> Sys \<times> (error + CallbackResult)" where
  "handleDialogGenieCallback rt env paymentId status now st =
     (case callbackLookup paymentId st of
        None \<Rightarrow> (st, Inl (NotFoundException ''Reservation not found for payment ID''))
      | Some seatLock \<Rightarrow>
          if status = ''SUCCESS''
          then
            (case findLockById (lock_id seatLock) (seatLocks st) of
               None \<Rightarrow> (st, Inl (Error ''Failed to reload seat lock from MongoDB''))
             | Some freshSeatLock \<Rightarrow>
                 (let st1 = st\<lparr>seatLocks := saveLock (lock_id freshSeatLock)
                                  (\<lambda>l. l\<lparr>numericState := PAYMENT_SUCCESS\<rparr>) (seatLocks st)\<rparr>
                  in case confirmBooking rt env (lock_id freshSeatLock) (Some paymentId) now st1 of
                       (st2, Inr confirmation) \<Rightarrow>
                         (markBookings (lock_id freshSeatLock) SUCCESS paymentId st2,
                          Inr \<lparr>callback_success = True,
                               callback_reservationId = lock_id freshSeatLock\<rparr>)
                     | (st2, Inl e) \<Rightarrow>
                         (let st3 = (if length (bookingsOf (lock_id freshSeatLock) (bookings st2)) > 0
                                     then fst (confirmBooking rt env (lock_id freshSeatLock)
                                                 (Some paymentId) now st2)
                                     else st2)
                          in (markBookings (lock_id freshSeatLock) SUCCESS paymentId st3, Inl e))))
          else
            (markBookings (lock_id seatLock) FAILED paymentId st,
             Inr \<lparr>callback_success = False, callback_reservationId = lock_id seatLock\<rparr>))"

record RedirectQuery =
  q_id :: "string option"
  q_transactionId :: "string option"
  q_paymentId :: "string option"
  q_transactionReference :: "string option"
  q_status :: "string option"
  q_success :: "string option"
  q_localId :: "string option"
  q_reservationId :: "string option"

datatype RedirectTarget = SuccessPage string | PaymentFailedPage string | ErrorPage string

definition errorMessage :: "error \<Rightarrow> string" where
  "errorMessage e = (case e of NotFoundException m \<Rightarrow> m | BadRequestException m \<Rightarrow> m | Error m \<Rightarrow> m)"

text \<open>The lookup of handleDialogGenieRedirect, lines 770-802.\<close>

definition redirectLookup :: "string option \<Rightarrow> string option \<Rightarrow> Sys \<Rightarrow> Sys \<times> SeatLock option" where
  "redirectLookup localId paymentId st =
     (let byLocalId =
            (if truthy localId then findLockById (the localId) (seatLocks st) else None)
      in case byLocalId of
           Some foundLock \<Rightarrow>
             if truthy paymentId \<and> \<not> truthy (paymentIntentId foundLock)
             then (st\<lparr>seatLocks := saveLock (lock_id foundLock)
                                      (\<lambda>l. l\<lparr>paymentIntentId := paymentId\<rparr>) (seatLocks st)\<rparr>,
                   Some (foundLock\<lparr>paymentIntentId := paymentId\<rparr>))
             else (st, Some foundLock)
         | None \<Rightarrow>
             if truthy paymentId then (st, findByPaymentIntentId (the paymentId) (seatLocks st))
             else (st, None))"

text \<open>handleDialogGenieRedirect, lines 747-842.\<close>

definition handleDialogGenieRedirect :: "JsRuntime \<Rightarrow> NotifyEnv \<Rightarrow> RedirectQuery \<Rightarrow> int \<Rightarrow> Sys \<Rightarrow> Sys \<times> RedirectTarget" where
  "handleDialogGenieRedirect rt env query now st =
     (let paymentId = firstTruthy [q_id query, q_transactionId query, q_paymentId query,
                                   q_transactionReference query];
          status = (if truthy (q_status query) then the (q_status query)
                    else if q_success query = Some ''true'' then ''SUCCESS''
                    else if q_success query = Some ''false'' then ''FAILED''
                    else ''SUCCESS'');
          localId = firstTruthy [q_localId query, q_reservationId query]
      in case redirectLookup localId paymentId st of
           (st1, None) \<Rightarrow> (st1, ErrorPage ''Reservation not found. Please contact support.'')
         | (st1, Some seatLock) \<Rightarrow>
             (let finalPaymentId =
                    (case firstTruthy [paymentId, paymentIntentId seatLock] of
                       None \<Rightarrow> [] | Some p \<Rightarrow> p)
              in case handleDialogGenieCallback rt env finalPaymentId status now st1 of
                   (st2, Inr result) \<Rightarrow>
                     (st2, if callback_success result then SuccessPage (lock_id seatLock)
                           else PaymentFailedPage (lock_id seatLock))
                 | (st2, Inl e) \<Rightarrow> (st2, ErrorPage (errorMessage e))))"

text \<open>
  The lookup of checkAndConfirmBooking, lines 981-1011, and of
  findReservationByPaymentId: reservation id, payment id in the primary collection,
  payment id in the backup collection.
\<close>

definition checkAndConfirmLookup :: "string \<Rightarrow> string option \<Rightarrow> Sys \<Rightarrow> SeatLock option" where
  "checkAndConfirmLookup reservationId paymentId st =
     (case findLockById reservationId (seatLocks st) of
        Some l \<Rightarrow> Some l
      | None \<Rightarrow>
          if truthy paymentId
          then (case findByPaymentIntentId (the paymentId) (seatLocks st) of
                  Some l \<Rightarrow> Some l
                | None \<Rightarrow> findViaBackup (the paymentId) st)
          else None)"

section \<open>The operations of the system\<close>

text \<open>
  One constructor for each operation that writes to the stores, with the values the
  operation reads from its caller, the clock and its collaborators.
\<close>

datatype Op =
    OpCreateReservation CreateBookingDto string int
  | OpUpdateTickets string UpdateTicketsDto
  | OpCreatePaymentIntent string "DialogGenieCustomerDto option" GatewayEnv
  | OpConfirmBooking NotifyEnv string "string option" int
  | OpCancelReservation string
  | OpSweep int
  | OpCallback NotifyEnv string string int
  | OpRedirect NotifyEnv RedirectQuery int

fun step :: "JsRuntime \<Rightarrow> Sys \<Rightarrow> Op \<Rightarrow> Sys" where
  "step rt st (OpCreateReservation dto uuid now) = fst (createReservation rt dto uuid now st)"
| "step rt st (OpUpdateTickets reservationId dto) = fst (updateTickets rt reservationId dto st)"
| "step rt st (OpCreatePaymentIntent reservationId customerInfo env) =
     fst (createPaymentIntent rt reservationId customerInfo env st)"
| "step rt st (OpConfirmBooking env reservationId paymentId now) =
     fst (confirmBooking rt env reservationId paymentId now st)"
| "step rt st (OpCancelReservation reservationId) = fst (cancelReservation reservationId st)"
| "step rt st (OpSweep now) = checkExpiredReservations now st"
| "step rt st (OpCallback env paymentId status now) =
     fst (handleDialogGenieCallback rt env paymentId status now st)"
| "step rt st (OpRedirect env query now) = fst (handleDialogGenieRedirect rt env query now st)"

definition run :: "JsRuntime \<Rightarrow> Sys \<Rightarrow> Op list \<Rightarrow> Sys" where
  "run rt st ops = foldl (step rt) st ops"

section \<open>Auxiliary notions of the proofs\<close>

text \<open>
  What the lock loop may have done to one seat document: nothing, or the transition of
  an available seat whose id is in \<open>L\<close> to payment_pending under the reservation id.
\<close>

definition lockedFrom :: "string \<Rightarrow> string set \<Rightarrow> Seat \<Rightarrow> Seat \<Rightarrow> bool" where
  "lockedFrom rid L s s' \<longleftrightarrow>
     s' = s \<or> (seat_id s \<in> L \<and> seat_state s = AVAILABLE
               \<and> s' = s\<lparr>seat_state := PAYMENT_PENDING, pendingReservationId := Some rid\<rparr>)"

text \<open>The two writes of the sweeper's loop body, as functions on one document.\<close>

definition timedOut :: "SeatLock \<Rightarrow> SeatLock" where
  "timedOut l = l\<lparr>lock_status := CANCELLED, numericState := TIMEOUT\<rparr>"

definition released :: "Seat \<Rightarrow> Seat" where
  "released s = s\<lparr>seat_state := AVAILABLE, pendingReservationId := None\<rparr>"

section \<open>Example data\<close>

text \<open>
  The runtime of the examples.  Their sums, products and quotients are integers far
  below \<open>2^53\<close> or the quarter, which the operators of IEEE 754 give exactly, and
  their strings are ASCII, on which \<open>String.prototype.trim\<close> strips the six ASCII
  white space characters.
\<close>

definition isWhiteSpace :: "char \<Rightarrow> bool" where
  "isWhiteSpace c \<longleftrightarrow> c \<in> {CHR '' '', CHR 0x09, CHR 0x0A, CHR 0x0B, CHR 0x0C, CHR 0x0D}"

definition trimAscii :: "string \<Rightarrow> string" where
  "trimAscii s = rev (dropWhile isWhiteSpace (rev (dropWhile isWhiteSpace s)))"

definition exampleRuntime :: JsRuntime where
  "exampleRuntime = \<lparr>js_add = (+), js_mul = (*), js_div = (/), js_trim = trimAscii\<rparr>"

definition seatA1 :: Seat where
  "seatA1 = \<lparr>seat_id = ''A1'', seat_eventId = ''E1'', seat_label = ''A1'', seat_ticketType = None,
     seat_basePrice = None, seat_state = PAYMENT_PENDING, pendingReservationId = Some ''R1''\<rparr>"

definition seatB1 :: Seat where
  "seatB1 = \<lparr>seat_id = ''B1'', seat_eventId = ''E1'', seat_label = ''B1'', seat_ticketType = None,
     seat_basePrice = None, seat_state = PAYMENT_PENDING, pendingReservationId = Some ''R2''\<rparr>"

text \<open>A reservation in the cart and one at the gateway, both with the deadline 100.\<close>

definition cartLock :: SeatLock where
  "cartLock = \<lparr>lock_id = ''R1'', lock_eventId = ''E1'', lock_buyerId = None, lock_seatIds = [''A1''],
     lock_status = PENDING_PAYMENT, numericState = CART_TO_PAYMENT, expiresAt = 100,
     amountSummary = Some \<lparr>subtotal = 1000, commission = 100, taxes = 0, total = 1100\<rparr>,
     paymentIntentId = None, phoneNumber = Some ''0771234567'',
     customerName = None, customerEmail = None\<rparr>"

definition gatewayLock :: SeatLock where
  "gatewayLock = \<lparr>lock_id = ''R2'', lock_eventId = ''E1'', lock_buyerId = None, lock_seatIds = [''B1''],
     lock_status = PENDING_PAYMENT, numericState = IN_PAYMENT_GATEWAY, expiresAt = 100,
     amountSummary = Some \<lparr>subtotal = 1000, commission = 100, taxes = 0, total = 1100\<rparr>,
     paymentIntentId = Some ''T1'', phoneNumber = Some ''0771234567'',
     customerName = None, customerEmail = None\<rparr>"

definition eventE1 :: Event where
  "eventE1 = \<lparr>event_id = ''E1'', defaultPrice = 1000, ticketTypes = [],
     event_commission = Some \<lparr>commission_type = percentage, commission_value = 10\<rparr>,
     ticketSaleStartDate = None, ticketSaleEndDate = None, isTicketSaleEnabled = True\<rparr>"

definition exampleSys :: Sys where
  "exampleSys = \<lparr>seats = [seatA1, seatB1], seatLocks = [cartLock, gatewayLock],
     seatLockBackups = [], bookings = [], events = [eventE1], nextBookingId = 0\<rparr>"

definition allServicesUp :: NotifyEnv where
  "allServicesUp = \<lparr>firebaseInitialized = True, firestoreAvailable = True,
     sendBookingMessageResult = True\<rparr>"

text \<open>
  A reservation in the cart that starts the payment twice: the gateway answers the first
  request with transaction T1 and the second with T2.
\<close>

definition cartSys :: Sys where
  "cartSys = \<lparr>seats = [seatA1], seatLocks = [cartLock],
     seatLockBackups = [], bookings = [], events = [eventE1], nextBookingId = 0\<rparr>"

text \<open>The store after the reservation in the cart was cancelled by its user.\<close>

definition cancelledSys :: Sys where
  "cancelledSys = fst (cancelReservation ''R1'' cartSys)"

definition gatewayAnswers :: "string \<Rightarrow> GatewayEnv" where
  "gatewayAnswers transactionId =
     \<lparr>DIALOG_GENIE_API_URL = Some ''https://gateway/transactions'',
      DIALOG_GENIE_API_KEY = Some ''key'',
      profilePhoneNumber = None,
      gatewayReply = Some (Some ''https://gateway/pay'', Some transactionId),
      paymentUrlParses = True,
      dateNowText = ''50''\<rparr>"

definition paidTwiceSys :: Sys where
  "paidTwiceSys = run exampleRuntime cartSys
     [OpCreatePaymentIntent ''R1'' None (gatewayAnswers ''T1''),
      OpCreatePaymentIntent ''R1'' None (gatewayAnswers ''T2'')]"

text \<open>The redirect of the first payment, carrying the transaction id and no localId.\<close>

definition redirectOfT1 :: RedirectQuery where
  "redirectOfT1 = \<lparr>q_id = Some ''T1'', q_transactionId = None, q_paymentId = None,
     q_transactionReference = None, q_status = Some ''SUCCESS'', q_success = None,
     q_localId = None, q_reservationId = None\<rparr>"

text \<open>The write of confirmBooking to the reservation, lines 310-315, on one document.\<close>

definition confirmedLock :: "string option \<Rightarrow> SeatLock \<Rightarrow> SeatLock" where
  "confirmedLock pid l = l\<lparr>lock_status := COMPLETED,
      paymentIntentId := (if truthy pid then pid else paymentIntentId l)\<rparr>"

text \<open>
  The numeric states a reservation has once it has left the cart, and the relation
  between the reservation collection before and after an operation that the
  monotonicity proof carries through every operation: the reservation of id \<open>r\<close>, when
  there was one, is still there, and its numeric state is unchanged or one of the three.
\<close>

definition afterCart :: "int \<Rightarrow> bool" where
  "afterCart n \<longleftrightarrow> n = IN_PAYMENT_GATEWAY \<or> n = TIMEOUT \<or> n = PAYMENT_SUCCESS"

definition keeps :: "string \<Rightarrow> SeatLock list \<Rightarrow> SeatLock list \<Rightarrow> bool" where
  "keeps r locks locks' \<longleftrightarrow>
     (case findLockById r locks of
        None \<Rightarrow> True
      | Some l \<Rightarrow>
          (case findLockById r locks' of
             None \<Rightarrow> False
           | Some l' \<Rightarrow> numericState l' = numericState l \<or> afterCart (numericState l')))"

section \<open>Verification\<close>

subsection \<open>Collections\<close>

lemma length_updateOne [simp]: "length (fst (updateOne P f xs)) = length xs"
  by (induction xs) auto

lemma updateOne_nth:
  "i < length xs \<Longrightarrow> fst (updateOne P f xs) ! i = xs ! i \<or> (P (xs ! i) \<and> fst (updateOne P f xs) ! i = f (xs ! i))"
proof (induction xs arbitrary: i)
  case Nil then show ?case by simp
next
  case (Cons x xs)
  then show ?case by (cases i) auto
qed

lemma updateOne_unmatched: "snd (updateOne P f xs) = 0 \<Longrightarrow> fst (updateOne P f xs) = xs"
  by (induction xs) (auto split: if_splits)

lemma length_updateMany [simp]: "length (updateMany P f xs) = length xs"
  by (simp add: updateMany_def)

lemma updateMany_nth: "i < length xs \<Longrightarrow> updateMany P f xs ! i = (if P (xs ! i) then f (xs ! i) else xs ! i)"
  by (simp add: updateMany_def)

lemma updateOne_none: "snd (updateOne P f xs) = 0 \<Longrightarrow> x \<in> set xs \<Longrightarrow> \<not> P x"
  by (induction xs) (auto split: if_splits)

lemma updateOne_some: "snd (updateOne P f xs) \<noteq> 0 \<Longrightarrow> \<exists>x \<in> set xs. P x"
  by (induction xs) (auto split: if_splits)

lemma updateOne_keeps: "x \<in> set xs \<Longrightarrow> \<not> P x \<Longrightarrow> x \<in> set (fst (updateOne P f xs))"
  by (induction xs) auto

lemma updateOne_set:
  "x \<in> set (fst (updateOne P f xs)) \<Longrightarrow> x \<in> set xs \<or> (\<exists>y \<in> set xs. P y \<and> x = f y)"
  by (induction xs) (auto split: if_splits)

text \<open>
  The loop of atomicLockSeats: every requested id ends in one of the two lists; a
  document is left as it was or, when it was available and its id is in lockedSeatIds,
  made payment_pending under the reservation id; an id is in lockedSeatIds only if the
  store held an available seat of that id, and in failedSeatIds only if the store held
  no available seat of that id or the call itself had locked it before.
\<close>

lemma lockLoop_effect:
  "lockLoop seatIds rid st failed locked = (st', failed', locked') \<Longrightarrow>
   length st' = length st
   \<and> (\<exists>f l. failed' = failed @ f \<and> locked' = locked @ l \<and> set f \<union> set l = set seatIds
        \<and> (\<forall>i < length st. lockedFrom rid (set l) (st ! i) (st' ! i))
        \<and> (\<forall>sid \<in> set l. \<exists>s \<in> set st. seat_id s = sid \<and> seat_state s = AVAILABLE)
        \<and> (\<forall>sid \<in> set f. sid \<in> set l
               \<or> (\<forall>s \<in> set st. seat_id s = sid \<longrightarrow> seat_state s \<noteq> AVAILABLE)))"
proof (induction seatIds arbitrary: st failed locked)
  case Nil
  then show ?case by (auto simp: lockedFrom_def)
next
  case (Cons seatId rest)
  let ?P = "\<lambda>s. seat_id s = seatId \<and> seat_state s = AVAILABLE"
  let ?w = "\<lambda>s. s\<lparr>seat_state := PAYMENT_PENDING, pendingReservationId := Some rid\<rparr>"
  let ?st1 = "fst (lockOne seatId rid st)"
  have len1: "length ?st1 = length st" by (simp add: lockOne_def)
  have st1: "?st1 = fst (updateOne ?P ?w st)" by (simp add: lockOne_def)
  have cnt: "snd (lockOne seatId rid st) = snd (updateOne ?P ?w st)" by (simp add: lockOne_def)
  show ?case
  proof (cases "snd (lockOne seatId rid st) = 0")
    case True
    then have same: "?st1 = st" by (simp add: lockOne_def updateOne_unmatched)
    have none: "\<forall>s \<in> set st. seat_id s = seatId \<longrightarrow> seat_state s \<noteq> AVAILABLE"
      using updateOne_none[of ?P ?w st] True cnt by auto
    from Cons.prems True have "lockLoop rest rid ?st1 (failed @ [seatId]) locked = (st', failed', locked')"
      by simp
    from Cons.IH[OF this] obtain f l where r:
      "length st' = length ?st1" "failed' = (failed @ [seatId]) @ f" "locked' = locked @ l"
      "set f \<union> set l = set rest" "\<forall>i < length ?st1. lockedFrom rid (set l) (?st1 ! i) (st' ! i)"
      "\<forall>sid \<in> set l. \<exists>s \<in> set ?st1. seat_id s = sid \<and> seat_state s = AVAILABLE"
      "\<forall>sid \<in> set f. sid \<in> set l
          \<or> (\<forall>s \<in> set ?st1. seat_id s = sid \<longrightarrow> seat_state s \<noteq> AVAILABLE)"
      by blast
    have a: "set (seatId # f) \<union> set l = set (seatId # rest)" using r(4) by auto
    have b: "\<forall>sid \<in> set (seatId # f). sid \<in> set l
          \<or> (\<forall>s \<in> set st. seat_id s = sid \<longrightarrow> seat_state s \<noteq> AVAILABLE)"
      using r(7) none same by auto
    show ?thesis
      apply (rule conjI)
       apply (simp add: r(1) same)
      apply (rule exI[of _ "seatId # f"])
      apply (rule exI[of _ l])
      using r(2,3,5,6) same a b apply simp
      done
  next
    case False
    from Cons.prems False have "lockLoop rest rid ?st1 failed (locked @ [seatId]) = (st', failed', locked')"
      by simp
    from Cons.IH[OF this] obtain f l where r:
      "length st' = length ?st1" "failed' = failed @ f" "locked' = (locked @ [seatId]) @ l"
      "set f \<union> set l = set rest" "\<forall>i < length ?st1. lockedFrom rid (set l) (?st1 ! i) (st' ! i)"
      "\<forall>sid \<in> set l. \<exists>s \<in> set ?st1. seat_id s = sid \<and> seat_state s = AVAILABLE"
      "\<forall>sid \<in> set f. sid \<in> set l
          \<or> (\<forall>s \<in> set ?st1. seat_id s = sid \<longrightarrow> seat_state s \<noteq> AVAILABLE)"
      by blast
    have pointwise: "\<forall>i < length st. lockedFrom rid (set (seatId # l)) (st ! i) (st' ! i)"
    proof (intro allI impI)
      fix i assume i: "i < length st"
      have a: "lockedFrom rid (set l) (?st1 ! i) (st' ! i)" using r(5) i len1 by simp
      have b: "?st1 ! i = st ! i \<or> (seat_id (st ! i) = seatId \<and> seat_state (st ! i) = AVAILABLE
           \<and> ?st1 ! i = (st ! i)\<lparr>seat_state := PAYMENT_PENDING, pendingReservationId := Some rid\<rparr>)"
        using updateOne_nth[OF i, of ?P] by (auto simp: lockOne_def)
      from a b show "lockedFrom rid (set (seatId # l)) (st ! i) (st' ! i)"
        by (auto simp: lockedFrom_def)
    qed
    have head: "\<exists>s \<in> set st. seat_id s = seatId \<and> seat_state s = AVAILABLE"
      using updateOne_some[of ?P ?w st] False cnt by auto
    have acquired: "\<forall>sid \<in> set (seatId # l). \<exists>s \<in> set st. seat_id s = sid \<and> seat_state s = AVAILABLE"
    proof
      fix sid assume "sid \<in> set (seatId # l)"
      then consider "sid = seatId" | "sid \<in> set l" by auto
      then show "\<exists>s \<in> set st. seat_id s = sid \<and> seat_state s = AVAILABLE"
      proof cases
        case 1
        with head show ?thesis by simp
      next
        case 2
        with r(6) obtain s where s: "s \<in> set ?st1" "seat_id s = sid" "seat_state s = AVAILABLE"
          by blast
        from updateOne_set[of s ?P ?w st] s(1) st1
        have "s \<in> set st \<or> (\<exists>y \<in> set st. ?P y \<and> s = ?w y)" by simp
        with s(3) have "s \<in> set st" by auto
        with s show ?thesis by blast
      qed
    qed
    have refused: "\<forall>sid \<in> set f. sid \<in> set (seatId # l)
          \<or> (\<forall>s \<in> set st. seat_id s = sid \<longrightarrow> seat_state s \<noteq> AVAILABLE)"
    proof
      fix sid assume sid: "sid \<in> set f"
      show "sid \<in> set (seatId # l)
          \<or> (\<forall>s \<in> set st. seat_id s = sid \<longrightarrow> seat_state s \<noteq> AVAILABLE)"
      proof (cases "sid \<in> set (seatId # l)")
        case True
        then show ?thesis by simp
      next
        case False
        with r(7) sid have no: "\<forall>s \<in> set ?st1. seat_id s = sid \<longrightarrow> seat_state s \<noteq> AVAILABLE"
          by auto
        have "\<forall>s \<in> set st. seat_id s = sid \<longrightarrow> seat_state s \<noteq> AVAILABLE"
        proof (intro ballI impI)
          fix s assume s: "s \<in> set st" "seat_id s = sid"
          from False s(2) have "\<not> ?P s" by auto
          from updateOne_keeps[of s st ?P ?w, OF s(1) this] st1 have "s \<in> set ?st1" by simp
          with no s(2) show "seat_state s \<noteq> AVAILABLE" by blast
        qed
        then show ?thesis by simp
      qed
    qed
    have a: "set f \<union> set (seatId # l) = set (seatId # rest)" using r(4) by auto
    show ?thesis
      apply (rule conjI)
       apply (simp add: r(1) len1)
      apply (rule exI[of _ f])
      apply (rule exI[of _ "seatId # l"])
      using r(2,3) pointwise acquired refused a apply simp
      done
  qed
qed

text \<open>
  Claim C3, as amended.  When atomicLockSeats fails to acquire some requested seat (the
  list of failed ids of its loop is not empty), it reports failure together with exactly
  those failed ids; every requested id is a failed or an acquired one; a seat was
  acquired only if the store held an available seat of that id, and failed only if the
  store held no available seat of that id or the call had acquired it before; the store
  it leaves is the store it found with every document of an acquired id available and
  without hold reference and every other document as it was; so a seat that is
  payment_pending under the reservation id afterwards is a document the call left as it
  was, payment_pending under that id before the call; no seat is pending under the id
  afterwards when none was before, as for the fresh id that createReservation
  generates; and on a store of unique seat ids in which only pending seats carry a hold
  reference the failed call changes nothing.
\<close>

theorem atomicLockSeats_all_or_nothing:
  assumes loop: "lockLoop seatIds rid st [] [] = (st1, failed, locked)"
      and fail: "failed \<noteq> []"
  shows "snd (atomicLockSeats seatIds rid st) = \<lparr>success = False, failedSeatIds = failed\<rparr>
     \<and> set failed \<union> set locked = set seatIds
     \<and> (\<forall>sid \<in> set locked. \<exists>s \<in> set st. seat_id s = sid \<and> seat_state s = AVAILABLE)
     \<and> (\<forall>sid \<in> set failed. sid \<in> set locked
            \<or> (\<forall>s \<in> set st. seat_id s = sid \<longrightarrow> seat_state s \<noteq> AVAILABLE))
     \<and> fst (atomicLockSeats seatIds rid st)
          = map (\<lambda>s. if seat_id s \<in> set locked then released s else s) st
     \<and> (\<forall>s \<in> set (fst (atomicLockSeats seatIds rid st)).
           seat_id s \<in> set locked \<longrightarrow> seat_state s = AVAILABLE \<and> pendingReservationId s = None)
     \<and> (\<forall>s \<in> set (fst (atomicLockSeats seatIds rid st)).
           pendingUnder rid s \<longrightarrow> s \<in> set st \<and> seat_id s \<notin> set locked)
     \<and> ((\<forall>s \<in> set st. \<not> pendingUnder rid s) \<longrightarrow>
           (\<forall>s \<in> set (fst (atomicLockSeats seatIds rid st)). \<not> pendingUnder rid s))
     \<and> (distinct (map seat_id st) \<and> list_all holdInvariant st \<longrightarrow>
           fst (atomicLockSeats seatIds rid st) = st)"
proof -
  let ?res = "fst (atomicLockSeats seatIds rid st)"
  let ?undo = "\<lambda>s. if seat_id s \<in> set locked then released s else s"
  from lockLoop_effect[OF loop] have len: "length st1 = length st"
    and cover: "set failed \<union> set locked = set seatIds"
    and eff: "\<forall>i < length st. lockedFrom rid (set locked) (st ! i) (st1 ! i)"
    and acquired: "\<forall>sid \<in> set locked. \<exists>s \<in> set st. seat_id s = sid \<and> seat_state s = AVAILABLE"
    and refused: "\<forall>sid \<in> set failed. sid \<in> set locked
            \<or> (\<forall>s \<in> set st. seat_id s = sid \<longrightarrow> seat_state s \<noteq> AVAILABLE)"
    by auto
  have res: "?res = (if length locked > 0 then rollbackSeats locked st1 else st1)"
    and out: "snd (atomicLockSeats seatIds rid st) = \<lparr>success = False, failedSeatIds = failed\<rparr>"
    using loop fail by (simp_all add: atomicLockSeats_def)
  have res_len: "length ?res = length st"
    using len by (simp add: res rollbackSeats_def)
  have store: "?res = map ?undo st"
  proof (rule nth_equalityI)
    show "length ?res = length (map ?undo st)" using res_len by simp
  next
    fix i assume "i < length ?res"
    then have i: "i < length st" using res_len by simp
    have lf: "lockedFrom rid (set locked) (st ! i) (st1 ! i)" using eff i by simp
    have "?res ! i = ?undo (st ! i)"
    proof (cases "locked = []")
      case True
      with lf show ?thesis by (simp add: res lockedFrom_def)
    next
      case False
      then have "?res ! i = (if seat_id (st1 ! i) \<in> set locked
            then (st1 ! i)\<lparr>seat_state := AVAILABLE, pendingReservationId := None\<rparr> else st1 ! i)"
        using i len by (simp add: res rollbackSeats_def updateMany_nth)
      with lf show ?thesis by (auto simp: lockedFrom_def released_def)
    qed
    with i show "?res ! i = map ?undo st ! i" by simp
  qed
  have rolled: "\<forall>s \<in> set ?res. seat_id s \<in> set locked \<longrightarrow>
      seat_state s = AVAILABLE \<and> pendingReservationId s = None"
    unfolding store by (auto simp: released_def)
  have kept: "\<forall>s \<in> set ?res. pendingUnder rid s \<longrightarrow> s \<in> set st \<and> seat_id s \<notin> set locked"
    unfolding store by (auto simp: released_def pendingUnder_def split: if_splits)
  have fresh: "(\<forall>s \<in> set st. \<not> pendingUnder rid s) \<longrightarrow> (\<forall>s \<in> set ?res. \<not> pendingUnder rid s)"
    using kept by blast
  have unchanged: "distinct (map seat_id st) \<and> list_all holdInvariant st \<longrightarrow> ?res = st"
  proof
    assume h: "distinct (map seat_id st) \<and> list_all holdInvariant st"
    then have inj: "inj_on seat_id (set st)" by (simp add: distinct_map)
    have "map ?undo st = map (\<lambda>s. s) st"
    proof (rule map_cong[OF refl])
      fix s assume s: "s \<in> set st"
      show "?undo s = s"
      proof (cases "seat_id s \<in> set locked")
        case False
        then show ?thesis by simp
      next
        case True
        with acquired obtain s' where s': "s' \<in> set st" "seat_id s' = seat_id s" "seat_state s' = AVAILABLE"
          by blast
        with inj s have "s' = s" by (auto dest: inj_onD)
        with s' have av: "seat_state s = AVAILABLE" by simp
        from h s have "holdInvariant s" by (simp add: list_all_iff)
        with av have "pendingReservationId s = None" by (simp add: holdInvariant_def)
        with av True show ?thesis by (simp add: released_def)
      qed
    qed
    with store show "?res = st" by simp
  qed
  from out cover acquired refused store rolled kept fresh unchanged show ?thesis
    by (intro conjI)
qed

text \<open>
  A request for two seats of which the second is booked: the first seat is acquired and
  rolled back, and the store is left as it was found.
\<close>

theorem atomicLockSeats_all_or_nothing_witness:
  "lockLoop [''A1'', ''B7''] ''R1''
     [\<lparr>seat_id = ''A1'', seat_eventId = ''E'', seat_label = ''A1'', seat_ticketType = None,
       seat_basePrice = None, seat_state = AVAILABLE, pendingReservationId = None\<rparr>,
      \<lparr>seat_id = ''B7'', seat_eventId = ''E'', seat_label = ''B7'', seat_ticketType = None,
       seat_basePrice = None, seat_state = BOOKED, pendingReservationId = None\<rparr>] [] []
   = ([\<lparr>seat_id = ''A1'', seat_eventId = ''E'', seat_label = ''A1'', seat_ticketType = None,
        seat_basePrice = None, seat_state = PAYMENT_PENDING, pendingReservationId = Some ''R1''\<rparr>,
       \<lparr>seat_id = ''B7'', seat_eventId = ''E'', seat_label = ''B7'', seat_ticketType = None,
        seat_basePrice = None, seat_state = BOOKED, pendingReservationId = None\<rparr>], [''B7''], [''A1''])
   \<and> atomicLockSeats [''A1'', ''B7''] ''R1''
     [\<lparr>seat_id = ''A1'', seat_eventId = ''E'', seat_label = ''A1'', seat_ticketType = None,
       seat_basePrice = None, seat_state = AVAILABLE, pendingReservationId = None\<rparr>,
      \<lparr>seat_id = ''B7'', seat_eventId = ''E'', seat_label = ''B7'', seat_ticketType = None,
       seat_basePrice = None, seat_state = BOOKED, pendingReservationId = None\<rparr>]
     = ([\<lparr>seat_id = ''A1'', seat_eventId = ''E'', seat_label = ''A1'', seat_ticketType = None,
          seat_basePrice = None, seat_state = AVAILABLE, pendingReservationId = None\<rparr>,
         \<lparr>seat_id = ''B7'', seat_eventId = ''E'', seat_label = ''B7'', seat_ticketType = None,
          seat_basePrice = None, seat_state = BOOKED, pendingReservationId = None\<rparr>],
        \<lparr>success = False, failedSeatIds = [''B7'']\<rparr>)"
proof -
  let ?st = "[\<lparr>seat_id = ''A1'', seat_eventId = ''E'', seat_label = ''A1'', seat_ticketType = None,
       seat_basePrice = None, seat_state = AVAILABLE, pendingReservationId = None\<rparr>,
      \<lparr>seat_id = ''B7'', seat_eventId = ''E'', seat_label = ''B7'', seat_ticketType = None,
       seat_basePrice = None, seat_state = BOOKED, pendingReservationId = None\<rparr>]"
  have loop: "lockLoop [''A1'', ''B7''] ''R1'' ?st [] []
   = ([\<lparr>seat_id = ''A1'', seat_eventId = ''E'', seat_label = ''A1'', seat_ticketType = None,
        seat_basePrice = None, seat_state = PAYMENT_PENDING, pendingReservationId = Some ''R1''\<rparr>,
       \<lparr>seat_id = ''B7'', seat_eventId = ''E'', seat_label = ''B7'', seat_ticketType = None,
        seat_basePrice = None, seat_state = BOOKED, pendingReservationId = None\<rparr>], [''B7''], [''A1''])"
    by (simp add: lockOne_def)
  have fail: "[''B7''] \<noteq> []" by simp
  from atomicLockSeats_all_or_nothing[OF loop fail]
  have out: "snd (atomicLockSeats [''A1'', ''B7''] ''R1'' ?st) = \<lparr>success = False, failedSeatIds = [''B7'']\<rparr>"
    and store: "fst (atomicLockSeats [''A1'', ''B7''] ''R1'' ?st)
          = map (\<lambda>s. if seat_id s \<in> set [''A1''] then released s else s) ?st"
    by blast+
  from store have "fst (atomicLockSeats [''A1'', ''B7''] ''R1'' ?st) = ?st"
    by (simp add: released_def)
  with out have "atomicLockSeats [''A1'', ''B7''] ''R1'' ?st
      = (?st, \<lparr>success = False, failedSeatIds = [''B7'']\<rparr>)"
    by (simp add: prod_eq_iff)
  with loop show ?thesis by (intro conjI)
qed

text \<open>
  The claim as stated has no requested seat pending under the reservation id after a
  failed call.  Seat A1 is payment_pending under reservation R1 and seat A2 is
  available; a call for both seats under R1 fails on A1, acquires A2 and releases it
  again, and A1, a requested seat, is payment_pending under R1 as before.
\<close>

theorem atomicLockSeats_held_seat_counterexample:
  "atomicLockSeats [''A1'', ''A2''] ''R1''
     [\<lparr>seat_id = ''A1'', seat_eventId = ''E'', seat_label = ''A1'', seat_ticketType = None,
       seat_basePrice = None, seat_state = PAYMENT_PENDING, pendingReservationId = Some ''R1''\<rparr>,
      \<lparr>seat_id = ''A2'', seat_eventId = ''E'', seat_label = ''A2'', seat_ticketType = None,
       seat_basePrice = None, seat_state = AVAILABLE, pendingReservationId = None\<rparr>]
     = ([\<lparr>seat_id = ''A1'', seat_eventId = ''E'', seat_label = ''A1'', seat_ticketType = None,
          seat_basePrice = None, seat_state = PAYMENT_PENDING, pendingReservationId = Some ''R1''\<rparr>,
         \<lparr>seat_id = ''A2'', seat_eventId = ''E'', seat_label = ''A2'', seat_ticketType = None,
          seat_basePrice = None, seat_state = AVAILABLE, pendingReservationId = None\<rparr>],
        \<lparr>success = False, failedSeatIds = [''A1'']\<rparr>)
   \<and> pendingUnder ''R1''
       \<lparr>seat_id = ''A1'', seat_eventId = ''E'', seat_label = ''A1'', seat_ticketType = None,
        seat_basePrice = None, seat_state = PAYMENT_PENDING, pendingReservationId = Some ''R1''\<rparr>"
  by (simp add: atomicLockSeats_def lockOne_def rollbackSeats_def updateMany_def pendingUnder_def)

subsection \<open>The seat store\<close>

lemma holdInvariant_siblings:
  assumes "list_all holdInvariant st"
  shows "list_all holdInvariant (fst (atomicConfirmSeats seatIds rid st))"
    and "list_all holdInvariant (fst (releaseSeatsByReservation rid st))"
    and "list_all holdInvariant (fst (setSeatsToPaymentPending seatIds rid st))"
    and "list_all holdInvariant (rollbackSeats seatIds st)"
  using assms
  by (auto simp: list_all_iff atomicConfirmSeats_def releaseSeatsByReservation_def
      setSeatsToPaymentPending_def rollbackSeats_def updateMany_def holdInvariant_def)

lemma holdInvariant_lockLoop:
  assumes "lockLoop seatIds rid st failed locked = (st', failed', locked')"
      and "list_all holdInvariant st"
  shows "list_all holdInvariant st'"
proof -
  from lockLoop_effect[OF assms(1)] obtain l where
    len: "length st' = length st" and eff: "\<forall>i < length st. lockedFrom rid (set l) (st ! i) (st' ! i)"
    by blast
  have "\<forall>i < length st'. holdInvariant (st' ! i)"
  proof (intro allI impI)
    fix i assume "i < length st'"
    then have i: "i < length st" using len by simp
    with assms(2) have "holdInvariant (st ! i)" by (simp add: list_all_length)
    with eff i show "holdInvariant (st' ! i)"
      by (auto simp: lockedFrom_def holdInvariant_def)
  qed
  then show ?thesis by (simp add: list_all_length)
qed

text \<open>
  Claim C5.  The seat operations that take a seat from or to payment_pending (lock,
  roll back, confirm, release, set to payment pending) keep the hold reference in step
  with the state, as the two lemmas above show.  setSeatBroken does not: it writes the
  state alone.  On a seat that is payment_pending under reservation R1 it returns the
  seat in state broken with the hold reference R1 still in place, so the invariant
  "hold reference set exactly when the state is payment_pending" holds before the call
  and fails after it; with \<open>broken = false\<close> the same seat becomes available with the
  hold reference R1 still in place.
\<close>

theorem setSeatBroken_keeps_hold:
  "holdInvariant \<lparr>seat_id = ''A1'', seat_eventId = ''E'', seat_label = ''A1'', seat_ticketType = None,
       seat_basePrice = None, seat_state = PAYMENT_PENDING, pendingReservationId = Some ''R1''\<rparr>
   \<and> setSeatBroken ''A1'' True
       [\<lparr>seat_id = ''A1'', seat_eventId = ''E'', seat_label = ''A1'', seat_ticketType = None,
         seat_basePrice = None, seat_state = PAYMENT_PENDING, pendingReservationId = Some ''R1''\<rparr>]
     = ([\<lparr>seat_id = ''A1'', seat_eventId = ''E'', seat_label = ''A1'', seat_ticketType = None,
          seat_basePrice = None, seat_state = BROKEN, pendingReservationId = Some ''R1''\<rparr>],
        Some \<lparr>seat_id = ''A1'', seat_eventId = ''E'', seat_label = ''A1'', seat_ticketType = None,
          seat_basePrice = None, seat_state = BROKEN, pendingReservationId = Some ''R1''\<rparr>)
   \<and> \<not> holdInvariant \<lparr>seat_id = ''A1'', seat_eventId = ''E'', seat_label = ''A1'', seat_ticketType = None,
          seat_basePrice = None, seat_state = BROKEN, pendingReservationId = Some ''R1''\<rparr>
   \<and> fst (setSeatBroken ''A1'' False
       [\<lparr>seat_id = ''A1'', seat_eventId = ''E'', seat_label = ''A1'', seat_ticketType = None,
         seat_basePrice = None, seat_state = PAYMENT_PENDING, pendingReservationId = Some ''R1''\<rparr>])
     = [\<lparr>seat_id = ''A1'', seat_eventId = ''E'', seat_label = ''A1'', seat_ticketType = None,
          seat_basePrice = None, seat_state = AVAILABLE, pendingReservationId = Some ''R1''\<rparr>]
   \<and> \<not> holdInvariant \<lparr>seat_id = ''A1'', seat_eventId = ''E'', seat_label = ''A1'', seat_ticketType = None,
          seat_basePrice = None, seat_state = AVAILABLE, pendingReservationId = Some ''R1''\<rparr>"
  by (simp add: setSeatBroken_def findOne_def holdInvariant_def)

text \<open>
  Claim C10.  setSeatsToPaymentPending changes exactly the documents whose id is
  requested and whose state is available or payment_pending, whatever their hold
  reference is, and sets their hold reference to the calling reservation id; there is
  an input on which a seat that is payment_pending under another reservation id ends
  payment_pending under the caller's id.
\<close>

theorem setSeatsToPaymentPending_ignores_hold:
  "(i < length st \<longrightarrow>
      fst (setSeatsToPaymentPending seatIds rid st) ! i =
        (if seat_id (st ! i) \<in> set seatIds
            \<and> (seat_state (st ! i) = AVAILABLE \<or> seat_state (st ! i) = PAYMENT_PENDING)
         then (st ! i)\<lparr>seat_state := PAYMENT_PENDING, pendingReservationId := Some rid\<rparr>
         else st ! i))
   \<and> (\<exists>st' seatIds' rid' other. other \<noteq> rid' \<and> pendingUnder other (st' ! 0)
         \<and> pendingUnder rid' (fst (setSeatsToPaymentPending seatIds' rid' st') ! 0))"
proof
  show "i < length st \<longrightarrow>
      fst (setSeatsToPaymentPending seatIds rid st) ! i =
        (if seat_id (st ! i) \<in> set seatIds
            \<and> (seat_state (st ! i) = AVAILABLE \<or> seat_state (st ! i) = PAYMENT_PENDING)
         then (st ! i)\<lparr>seat_state := PAYMENT_PENDING, pendingReservationId := Some rid\<rparr>
         else st ! i)"
    by (simp add: setSeatsToPaymentPending_def pendingFilter_def updateMany_nth)
  let ?s = "\<lparr>seat_id = ''A1'', seat_eventId = ''E'', seat_label = ''A1'', seat_ticketType = None,
       seat_basePrice = None, seat_state = PAYMENT_PENDING, pendingReservationId = Some ''R1''\<rparr>"
  have "''R1'' \<noteq> ''R2'' \<and> pendingUnder ''R1'' ([?s] ! 0)
      \<and> pendingUnder ''R2'' (fst (setSeatsToPaymentPending [''A1''] ''R2'' [?s]) ! 0)"
    by (simp add: setSeatsToPaymentPending_def pendingFilter_def updateMany_def pendingUnder_def)
  then show "\<exists>st' seatIds' rid' other. other \<noteq> rid' \<and> pendingUnder other (st' ! 0)
         \<and> pendingUnder rid' (fst (setSeatsToPaymentPending seatIds' rid' st') ! 0)"
    apply -
    apply (rule exI[of _ "[?s]"])
    apply (rule exI[of _ "[''A1'']"])
    apply (rule exI[of _ "''R2''"])
    apply (rule exI[of _ "''R1''"])
    apply assumption
    done
qed

theorem setSeatsToPaymentPending_ignores_hold_witness:
  "pendingUnder ''R1''
     \<lparr>seat_id = ''A1'', seat_eventId = ''E'', seat_label = ''A1'', seat_ticketType = None,
       seat_basePrice = None, seat_state = PAYMENT_PENDING, pendingReservationId = Some ''R1''\<rparr>
   \<and> fst (setSeatsToPaymentPending [''A1''] ''R2''
       [\<lparr>seat_id = ''A1'', seat_eventId = ''E'', seat_label = ''A1'', seat_ticketType = None,
         seat_basePrice = None, seat_state = PAYMENT_PENDING, pendingReservationId = Some ''R1''\<rparr>]) ! 0
     = \<lparr>seat_id = ''A1'', seat_eventId = ''E'', seat_label = ''A1'', seat_ticketType = None,
         seat_basePrice = None, seat_state = PAYMENT_PENDING, pendingReservationId = Some ''R2''\<rparr>"
  using setSeatsToPaymentPending_ignores_hold [of 0
      "[\<lparr>seat_id = ''A1'', seat_eventId = ''E'', seat_label = ''A1'', seat_ticketType = None,
         seat_basePrice = None, seat_state = PAYMENT_PENDING, pendingReservationId = Some ''R1''\<rparr>]"
      "[''A1'']" "''R2''"]
  by (simp add: pendingUnder_def)

subsection \<open>Pricing\<close>

lemma buildTicketTypeMap_snoc:
  "buildTicketTypeMap (tts @ [tt]) =
     (if tt_name tt \<noteq> [] then (buildTicketTypeMap tts)(tt_name tt \<mapsto> (adultPrice tt, childPrice tt))
      else buildTicketTypeMap tts)"
  by (simp add: buildTicketTypeMap_def)

lemma buildTicketTypeMap_find:
  "name \<noteq> [] \<Longrightarrow>
   buildTicketTypeMap tts name =
     map_option (\<lambda>tt. (adultPrice tt, childPrice tt)) (find (\<lambda>tt. tt_name tt = name) (rev tts))"
proof (induction tts rule: rev_induct)
  case Nil
  then show ?case by (simp add: buildTicketTypeMap_def)
next
  case (snoc tt tts)
  then show ?case by (auto simp: buildTicketTypeMap_snoc)
qed

lemma buildAssignmentMap_find:
  "buildAssignmentMap as sid =
     map_option assignment_ticketType (find (\<lambda>a. assignment_seatId a = sid) (rev as))"
proof (induction as rule: rev_induct)
  case Nil
  then show ?case by (simp add: buildAssignmentMap_def)
next
  case (snoc a as)
  then show ?case by (auto simp: buildAssignmentMap_def)
qed

text \<open>
  On a seat whose ticket type is left as it is by trimming, the price the code charges
  is the unit price of the rule.
\<close>

lemma assignedSeatPrice_spec:
  assumes "plainTicketType rt s"
  shows "assignedSeatPrice rt (buildTicketTypeMap (ticketTypes ev)) (buildAssignmentMap as) ev s
     = specUnitPrice ev as s"
proof (cases "seat_ticketType s")
  case None
  then show ?thesis
    by (simp add: assignedSeatPrice_def seatTicketTypeOf_def specUnitPrice_def specTier_def
        basePriceOrDefault_def split: option.splits)
next
  case (Some t)
  with assms have t: "t \<noteq> []" "js_trim rt t = t"
    by (simp_all add: plainTicketType_def)
  from Some t have code: "seatTicketTypeOf rt s = Some t"
    by (simp add: seatTicketTypeOf_def)
  from Some have tier: "specTier ev s = find (\<lambda>tt. tt_name tt = t) (rev (ticketTypes ev))"
    by (simp add: specTier_def)
  show ?thesis
    using t(1)
    by (auto simp: assignedSeatPrice_def code specUnitPrice_def tier specAgeClass_def
        basePriceOrDefault_def buildTicketTypeMap_find buildAssignmentMap_find
        split: option.splits AgeClass.splits)
qed

lemma assignedSeatPrice_spec_map:
  assumes "list_all (plainTicketType rt) seatDocs"
  shows "map (assignedSeatPrice rt (buildTicketTypeMap (ticketTypes ev)) (buildAssignmentMap as) ev) seatDocs
     = map (specUnitPrice ev as) seatDocs"
  using assms by (induction seatDocs) (simp_all add: assignedSeatPrice_spec)

lemma subtotal_fold:
  "subtotal (calculateAmountWithSeatAssignments rt seatDocs ev as)
     = foldl (js_add rt) 0
         (map (assignedSeatPrice rt (buildTicketTypeMap (ticketTypes ev)) (buildAssignmentMap as) ev)
            seatDocs)"
  by (simp add: calculateAmountWithSeatAssignments_def Let_def foldl_map)

lemma foldl_plus_sum_list: "foldl (+) (a::real) xs = a + sum_list xs"
  by (induction xs arbitrary: a) auto

text \<open>
  Claim C9, as amended.  For every runtime, event and list of per-seat assignments, and
  every seat list in which a ticket type is a non-empty string without surrounding white
  space, the summary of calculateAmountWithSeatAssignments has: as subtotal the unit
  prices added up in the order of the seats, from 0, where the unit price of a seat is
  the adult or child price of the seat's tier when the event has a ticket type of that
  name, else the seat's own price when it is greater than zero, else the event's default
  price; as commission the subtotal times value / 100 for a percentage commission, the
  value times the number of seats for a flat one, and zero for an event without
  commission; taxes zero; and as total the sum of subtotal, commission and taxes.  The
  additions, the product and the quotient are the runtime's.
\<close>

theorem calculateAmountWithSeatAssignments_spec:
  assumes "list_all (plainTicketType rt) seatDocs"
  shows "subtotal (calculateAmountWithSeatAssignments rt seatDocs ev seatAssignments)
      = foldl (js_add rt) 0 (map (specUnitPrice ev seatAssignments) seatDocs)
   \<and> commission (calculateAmountWithSeatAssignments rt seatDocs ev seatAssignments)
      = (case event_commission ev of
           None \<Rightarrow> 0
         | Some c \<Rightarrow>
             (case commission_type c of
                percentage \<Rightarrow>
                  js_mul rt (subtotal (calculateAmountWithSeatAssignments rt seatDocs ev seatAssignments))
                    (js_div rt (commission_value c) 100)
              | flat \<Rightarrow> js_mul rt (commission_value c) (real (length seatDocs))))
   \<and> taxes (calculateAmountWithSeatAssignments rt seatDocs ev seatAssignments) = 0
   \<and> total (calculateAmountWithSeatAssignments rt seatDocs ev seatAssignments)
      = js_add rt
          (js_add rt (subtotal (calculateAmountWithSeatAssignments rt seatDocs ev seatAssignments))
             (commission (calculateAmountWithSeatAssignments rt seatDocs ev seatAssignments)))
          (taxes (calculateAmountWithSeatAssignments rt seatDocs ev seatAssignments))"
proof (intro conjI)
  show "subtotal (calculateAmountWithSeatAssignments rt seatDocs ev seatAssignments)
      = foldl (js_add rt) 0 (map (specUnitPrice ev seatAssignments) seatDocs)"
    by (simp only: subtotal_fold assignedSeatPrice_spec_map[OF assms])
  show "commission (calculateAmountWithSeatAssignments rt seatDocs ev seatAssignments)
      = (case event_commission ev of
           None \<Rightarrow> 0
         | Some c \<Rightarrow>
             (case commission_type c of
                percentage \<Rightarrow>
                  js_mul rt (subtotal (calculateAmountWithSeatAssignments rt seatDocs ev seatAssignments))
                    (js_div rt (commission_value c) 100)
              | flat \<Rightarrow> js_mul rt (commission_value c) (real (length seatDocs))))"
    by (simp add: calculateAmountWithSeatAssignments_def Let_def commissionOf_def
        split: option.splits CommissionType.splits)
  show "taxes (calculateAmountWithSeatAssignments rt seatDocs ev seatAssignments) = 0"
    by (simp add: calculateAmountWithSeatAssignments_def Let_def)
  show "total (calculateAmountWithSeatAssignments rt seatDocs ev seatAssignments)
      = js_add rt
          (js_add rt (subtotal (calculateAmountWithSeatAssignments rt seatDocs ev seatAssignments))
             (commission (calculateAmountWithSeatAssignments rt seatDocs ev seatAssignments)))
          (taxes (calculateAmountWithSeatAssignments rt seatDocs ev seatAssignments))"
    by (simp add: calculateAmountWithSeatAssignments_def Let_def)
qed

text \<open>
  An event with the tier VIP (adult 5000, child 2500), the default price 1000 and a
  commission of 25 percent; three seats: a VIP seat with the own price 800 assigned to a
  child, a seat without ticket type with the own price 800, a seat with neither.  The
  subtotal is 2500 + 800 + 1000 = 4300, the commission 1075 and the total 5375.
\<close>

theorem calculateAmountWithSeatAssignments_spec_witness:
  "list_all (plainTicketType exampleRuntime)
     [\<lparr>seat_id = ''S1'', seat_eventId = ''E'', seat_label = ''S1'', seat_ticketType = Some ''VIP'',
       seat_basePrice = Some 800, seat_state = PAYMENT_PENDING, pendingReservationId = Some ''R1''\<rparr>,
      \<lparr>seat_id = ''S2'', seat_eventId = ''E'', seat_label = ''S2'', seat_ticketType = None,
       seat_basePrice = Some 800, seat_state = PAYMENT_PENDING, pendingReservationId = Some ''R1''\<rparr>,
      \<lparr>seat_id = ''S3'', seat_eventId = ''E'', seat_label = ''S3'', seat_ticketType = None,
       seat_basePrice = None, seat_state = PAYMENT_PENDING, pendingReservationId = Some ''R1''\<rparr>]
   \<and> subtotal (calculateAmountWithSeatAssignments exampleRuntime
     [\<lparr>seat_id = ''S1'', seat_eventId = ''E'', seat_label = ''S1'', seat_ticketType = Some ''VIP'',
       seat_basePrice = Some 800, seat_state = PAYMENT_PENDING, pendingReservationId = Some ''R1''\<rparr>,
      \<lparr>seat_id = ''S2'', seat_eventId = ''E'', seat_label = ''S2'', seat_ticketType = None,
       seat_basePrice = Some 800, seat_state = PAYMENT_PENDING, pendingReservationId = Some ''R1''\<rparr>,
      \<lparr>seat_id = ''S3'', seat_eventId = ''E'', seat_label = ''S3'', seat_ticketType = None,
       seat_basePrice = None, seat_state = PAYMENT_PENDING, pendingReservationId = Some ''R1''\<rparr>]
     \<lparr>event_id = ''E'', defaultPrice = 1000,
      ticketTypes = [\<lparr>tt_name = ''VIP'', adultPrice = 5000, childPrice = 2500\<rparr>],
      event_commission = Some \<lparr>commission_type = percentage, commission_value = 25\<rparr>,
      ticketSaleStartDate = None, ticketSaleEndDate = None, isTicketSaleEnabled = True\<rparr>
     [\<lparr>assignment_seatId = ''S1'', assignment_ticketType = Child\<rparr>]) = 4300
   \<and> commission (calculateAmountWithSeatAssignments exampleRuntime
     [\<lparr>seat_id = ''S1'', seat_eventId = ''E'', seat_label = ''S1'', seat_ticketType = Some ''VIP'',
       seat_basePrice = Some 800, seat_state = PAYMENT_PENDING, pendingReservationId = Some ''R1''\<rparr>,
      \<lparr>seat_id = ''S2'', seat_eventId = ''E'', seat_label = ''S2'', seat_ticketType = None,
       seat_basePrice = Some 800, seat_state = PAYMENT_PENDING, pendingReservationId = Some ''R1''\<rparr>,
      \<lparr>seat_id = ''S3'', seat_eventId = ''E'', seat_label = ''S3'', seat_ticketType = None,
       seat_basePrice = None, seat_state = PAYMENT_PENDING, pendingReservationId = Some ''R1''\<rparr>]
     \<lparr>event_id = ''E'', defaultPrice = 1000,
      ticketTypes = [\<lparr>tt_name = ''VIP'', adultPrice = 5000, childPrice = 2500\<rparr>],
      event_commission = Some \<lparr>commission_type = percentage, commission_value = 25\<rparr>,
      ticketSaleStartDate = None, ticketSaleEndDate = None, isTicketSaleEnabled = True\<rparr>
     [\<lparr>assignment_seatId = ''S1'', assignment_ticketType = Child\<rparr>]) = 1075
   \<and> total (calculateAmountWithSeatAssignments exampleRuntime
     [\<lparr>seat_id = ''S1'', seat_eventId = ''E'', seat_label = ''S1'', seat_ticketType = Some ''VIP'',
       seat_basePrice = Some 800, seat_state = PAYMENT_PENDING, pendingReservationId = Some ''R1''\<rparr>,
      \<lparr>seat_id = ''S2'', seat_eventId = ''E'', seat_label = ''S2'', seat_ticketType = None,
       seat_basePrice = Some 800, seat_state = PAYMENT_PENDING, pendingReservationId = Some ''R1''\<rparr>,
      \<lparr>seat_id = ''S3'', seat_eventId = ''E'', seat_label = ''S3'', seat_ticketType = None,
       seat_basePrice = None, seat_state = PAYMENT_PENDING, pendingReservationId = Some ''R1''\<rparr>]
     \<lparr>event_id = ''E'', defaultPrice = 1000,
      ticketTypes = [\<lparr>tt_name = ''VIP'', adultPrice = 5000, childPrice = 2500\<rparr>],
      event_commission = Some \<lparr>commission_type = percentage, commission_value = 25\<rparr>,
      ticketSaleStartDate = None, ticketSaleEndDate = None, isTicketSaleEnabled = True\<rparr>
     [\<lparr>assignment_seatId = ''S1'', assignment_ticketType = Child\<rparr>]) = 5375"
proof -
  let ?seats = "[\<lparr>seat_id = ''S1'', seat_eventId = ''E'', seat_label = ''S1'', seat_ticketType = Some ''VIP'',
       seat_basePrice = Some 800, seat_state = PAYMENT_PENDING, pendingReservationId = Some ''R1''\<rparr>,
      \<lparr>seat_id = ''S2'', seat_eventId = ''E'', seat_label = ''S2'', seat_ticketType = None,
       seat_basePrice = Some 800, seat_state = PAYMENT_PENDING, pendingReservationId = Some ''R1''\<rparr>,
      \<lparr>seat_id = ''S3'', seat_eventId = ''E'', seat_label = ''S3'', seat_ticketType = None,
       seat_basePrice = None, seat_state = PAYMENT_PENDING, pendingReservationId = Some ''R1''\<rparr>]"
  let ?ev = "\<lparr>event_id = ''E'', defaultPrice = 1000,
      ticketTypes = [\<lparr>tt_name = ''VIP'', adultPrice = 5000, childPrice = 2500\<rparr>],
      event_commission = Some \<lparr>commission_type = percentage, commission_value = 25\<rparr>,
      ticketSaleStartDate = None, ticketSaleEndDate = None, isTicketSaleEnabled = True\<rparr>"
  let ?as = "[\<lparr>assignment_seatId = ''S1'', assignment_ticketType = Child\<rparr>]"
  have plain: "list_all (plainTicketType exampleRuntime) ?seats"
    by (simp add: plainTicketType_def exampleRuntime_def trimAscii_def isWhiteSpace_def)
  have prices: "map (specUnitPrice ?ev ?as) ?seats = [2500, 800, 1000]"
    by (simp add: specUnitPrice_def specTier_def specAgeClass_def)
  from calculateAmountWithSeatAssignments_spec[OF plain, of ?ev ?as]
  have sub: "subtotal (calculateAmountWithSeatAssignments exampleRuntime ?seats ?ev ?as) = 4300"
    and com: "commission (calculateAmountWithSeatAssignments exampleRuntime ?seats ?ev ?as)
          = js_mul exampleRuntime (subtotal (calculateAmountWithSeatAssignments exampleRuntime ?seats ?ev ?as))
              (js_div exampleRuntime 25 100)"
    and tax: "taxes (calculateAmountWithSeatAssignments exampleRuntime ?seats ?ev ?as) = 0"
    and tot: "total (calculateAmountWithSeatAssignments exampleRuntime ?seats ?ev ?as)
          = js_add exampleRuntime
              (js_add exampleRuntime (subtotal (calculateAmountWithSeatAssignments exampleRuntime ?seats ?ev ?as))
                 (commission (calculateAmountWithSeatAssignments exampleRuntime ?seats ?ev ?as)))
              (taxes (calculateAmountWithSeatAssignments exampleRuntime ?seats ?ev ?as))"
    unfolding prices by (simp_all add: exampleRuntime_def)
  from sub com have com': "commission (calculateAmountWithSeatAssignments exampleRuntime ?seats ?ev ?as) = 1075"
    by (simp add: exampleRuntime_def)
  from sub com' tax tot
  have tot': "total (calculateAmountWithSeatAssignments exampleRuntime ?seats ?ev ?as) = 5375"
    by (simp add: exampleRuntime_def)
  from plain sub com' tot' show ?thesis by (intro conjI)
qed

text \<open>
  With the exact arithmetic of the reals in place of the runtime's, the subtotal is the
  sum of the unit prices.
\<close>

lemma calculateAmountWithSeatAssignments_exact:
  assumes "list_all (plainTicketType rt) seatDocs" and "js_add rt = (+)"
  shows "subtotal (calculateAmountWithSeatAssignments rt seatDocs ev seatAssignments)
      = sum_list (map (specUnitPrice ev seatAssignments) seatDocs)"
  by (simp add: subtotal_fold assignedSeatPrice_spec_map[OF assms(1)] assms(2) foldl_plus_sum_list)

text \<open>
  The claim as stated takes the seat's own override price before the default price, and
  the price of the seat's tier whenever the event has that tier.  A seat without ticket
  type whose own price is 0 is priced at the event's default price 1000, not at its own
  price.  A seat of the ticket type \<open>''VIP ''\<close> (with a space at its end) on an event
  that has a tier of exactly that name is priced at the default price 1000, not at the
  5000 of the tier; and a seat of the ticket type \<open>'' VIP''\<close> is priced at the 5000 of
  the tier \<open>''VIP''\<close>, a tier of another name.
\<close>

theorem override_price_zero_counterexample:
  "seat_ticketType \<lparr>seat_id = ''A1'', seat_eventId = ''E'', seat_label = ''A1'', seat_ticketType = None,
       seat_basePrice = Some 0, seat_state = PAYMENT_PENDING, pendingReservationId = Some ''R1''\<rparr> = None
   \<and> seat_basePrice \<lparr>seat_id = ''A1'', seat_eventId = ''E'', seat_label = ''A1'', seat_ticketType = None,
       seat_basePrice = Some 0, seat_state = PAYMENT_PENDING, pendingReservationId = Some ''R1''\<rparr> = Some 0
   \<and> subtotal (calculateAmountWithSeatAssignments exampleRuntime
       [\<lparr>seat_id = ''A1'', seat_eventId = ''E'', seat_label = ''A1'', seat_ticketType = None,
         seat_basePrice = Some 0, seat_state = PAYMENT_PENDING, pendingReservationId = Some ''R1''\<rparr>]
       \<lparr>event_id = ''E'', defaultPrice = 1000, ticketTypes = [], event_commission = None,
        ticketSaleStartDate = None, ticketSaleEndDate = None, isTicketSaleEnabled = True\<rparr>
       [\<lparr>assignment_seatId = ''A1'', assignment_ticketType = Adult\<rparr>]) = 1000
   \<and> subtotal (calculateAmountWithSeatAssignments exampleRuntime
       [\<lparr>seat_id = ''A2'', seat_eventId = ''E'', seat_label = ''A2'', seat_ticketType = Some ''VIP '',
         seat_basePrice = None, seat_state = PAYMENT_PENDING, pendingReservationId = Some ''R1''\<rparr>]
       \<lparr>event_id = ''E'', defaultPrice = 1000,
        ticketTypes = [\<lparr>tt_name = ''VIP '', adultPrice = 5000, childPrice = 2500\<rparr>],
        event_commission = None,
        ticketSaleStartDate = None, ticketSaleEndDate = None, isTicketSaleEnabled = True\<rparr>
       [\<lparr>assignment_seatId = ''A2'', assignment_ticketType = Adult\<rparr>]) = 1000
   \<and> subtotal (calculateAmountWithSeatAssignments exampleRuntime
       [\<lparr>seat_id = ''A3'', seat_eventId = ''E'', seat_label = ''A3'', seat_ticketType = Some '' VIP'',
         seat_basePrice = None, seat_state = PAYMENT_PENDING, pendingReservationId = Some ''R1''\<rparr>]
       \<lparr>event_id = ''E'', defaultPrice = 1000,
        ticketTypes = [\<lparr>tt_name = ''VIP'', adultPrice = 5000, childPrice = 2500\<rparr>],
        event_commission = None,
        ticketSaleStartDate = None, ticketSaleEndDate = None, isTicketSaleEnabled = True\<rparr>
       [\<lparr>assignment_seatId = ''A3'', assignment_ticketType = Adult\<rparr>]) = 5000"
  by (simp add: calculateAmountWithSeatAssignments_def Let_def assignedSeatPrice_def
      seatTicketTypeOf_def basePriceOrDefault_def buildTicketTypeMap_def buildAssignmentMap_def
      exampleRuntime_def trimAscii_def isWhiteSpace_def)

text \<open>
  calculateAmount, which prices a new reservation, is the same rule with every seat an
  adult, as long as the persons are as many as the seats (or none is given).
\<close>

lemma calculateAmount_one_person_per_seat:
  "js_add rt adults kids = 0 \<or> js_add rt adults kids = real (length seatDocs) \<Longrightarrow>
   calculateAmount rt seatDocs ev adults kids = Some (calculateAmountWithSeatAssignments rt seatDocs ev [])"
  by (auto simp: calculateAmount_def calculateAmountWithSeatAssignments_def Let_def
      buildAssignmentMap_def foldl_map)

subsection \<open>The expiry sweep\<close>

lemma updateOne_distinct:
  "distinct (map k xs) \<Longrightarrow>
   fst (updateOne (\<lambda>x. k x = a) f xs) = map (\<lambda>x. if k x = a then f x else x) xs"
proof (induction xs)
  case Nil
  then show ?case by simp
next
  case (Cons x xs)
  show ?case
  proof (cases "k x = a")
    case True
    with Cons.prems have "\<forall>y \<in> set xs. k y \<noteq> a" by (auto simp: image_iff)
    then have "map (\<lambda>x. if k x = a then f x else x) xs = xs"
      by (simp add: map_idI)
    with True show ?thesis by simp
  next
    case False
    with Cons show ?thesis by simp
  qed
qed

lemma saveLock_distinct:
  "distinct (map lock_id locks) \<Longrightarrow>
   saveLock rid f locks = map (\<lambda>l. if lock_id l = rid then f l else l) locks"
  by (simp add: saveLock_def updateOne_distinct)

lemma sweep_locks:
  "distinct (map lock_id (seatLocks st)) \<Longrightarrow>
   seatLocks (foldl expireLock st es)
     = map (\<lambda>l. if lock_id l \<in> lock_id ` set es then timedOut l else l) (seatLocks st)"
proof (induction es arbitrary: st)
  case Nil
  then show ?case by simp
next
  case (Cons e es)
  let ?st1 = "expireLock st e"
  have locks1: "seatLocks ?st1 = map (\<lambda>l. if lock_id l = lock_id e then timedOut l else l) (seatLocks st)"
    using Cons.prems by (simp add: expireLock_def saveLock_distinct timedOut_def)
  have ids: "map lock_id (seatLocks ?st1) = map lock_id (seatLocks st)"
    by (simp add: locks1 timedOut_def)
  have "seatLocks (foldl expireLock ?st1 es)
      = map (\<lambda>l. if lock_id l \<in> lock_id ` set es then timedOut l else l) (seatLocks ?st1)"
    using Cons.IH[of ?st1] Cons.prems ids by simp
  then show ?case
    by (auto simp: locks1 timedOut_def)
qed

lemma sweep_seats:
  "seats (foldl expireLock st es)
     = map (\<lambda>s. if \<exists>e \<in> set es. releaseFilter (lock_id e) s then released s else s) (seats st)"
proof (induction es arbitrary: st)
  case Nil
  then show ?case by simp
next
  case (Cons e es)
  let ?st1 = "expireLock st e"
  have seats1: "seats ?st1 = map (\<lambda>s. if releaseFilter (lock_id e) s then released s else s) (seats st)"
    by (simp add: expireLock_def releaseSeatsByReservation_def updateMany_def released_def)
  have "seats (foldl expireLock ?st1 es)
      = map (\<lambda>s. if \<exists>e \<in> set es. releaseFilter (lock_id e) s then released s else s) (seats ?st1)"
    using Cons.IH[of ?st1] by simp
  then show ?case
    by (auto simp: seats1 releaseFilter_def released_def)
qed

lemma sweep_rest:
  "seatLockBackups (foldl expireLock st es) = seatLockBackups st
   \<and> bookings (foldl expireLock st es) = bookings st"
  by (induction es arbitrary: st) (simp_all add: expireLock_def)


text \<open>
  Claim C2, as amended.  In a store whose reservation ids are distinct, one pass of
  checkExpiredReservations transitions to cancelled / TIMEOUT (-3) exactly the
  reservations whose status is pending_payment, whose numeric state is -1 and whose
  deadline is before now, and leaves every other reservation as it was; it makes
  available, and clears the hold reference of, exactly the seats that were
  payment_pending under the id of one of those reservations.  A reservation in numeric
  state -2 is left as it was, and so is every seat that is payment_pending under its
  id, however far the deadline lies in the past.
\<close>

theorem checkExpiredReservations_exact:
  assumes ids: "distinct (map lock_id (seatLocks st))"
  shows "seatLocks (checkExpiredReservations now st)
           = map (\<lambda>l. if isExpiredCart now l then timedOut l else l) (seatLocks st)
     \<and> seats (checkExpiredReservations now st)
           = map (\<lambda>s. if seat_state s = PAYMENT_PENDING
                         \<and> (\<exists>l \<in> set (seatLocks st). isExpiredCart now l
                               \<and> pendingReservationId s = Some (lock_id l))
                      then released s else s) (seats st)
     \<and> (\<forall>l \<in> set (seatLocks st). numericState l = IN_PAYMENT_GATEWAY \<longrightarrow>
           l \<in> set (seatLocks (checkExpiredReservations now st))
           \<and> (\<forall>s \<in> set (seats st). pendingUnder (lock_id l) s \<longrightarrow>
                  s \<in> set (seats (checkExpiredReservations now st))))"
proof -
  let ?es = "filter (isExpiredCart now) (seatLocks st)"
  let ?st' = "checkExpiredReservations now st"
  have inj: "inj_on lock_id (set (seatLocks st))"
    using ids by (simp add: distinct_map)
  have member: "\<And>l. l \<in> set (seatLocks st) \<Longrightarrow>
      (lock_id l \<in> lock_id ` set ?es) = isExpiredCart now l"
  proof
    fix l assume l: "l \<in> set (seatLocks st)" and "lock_id l \<in> lock_id ` set ?es"
    then obtain e where e: "e \<in> set (seatLocks st)" "isExpiredCart now e" "lock_id l = lock_id e"
      by auto
    with l inj have "l = e" by (auto dest: inj_onD)
    with e show "isExpiredCart now l" by simp
  next
    fix l assume "l \<in> set (seatLocks st)" and "isExpiredCart now l"
    then show "lock_id l \<in> lock_id ` set ?es" by auto
  qed
  have locks: "seatLocks ?st' = map (\<lambda>l. if isExpiredCart now l then timedOut l else l) (seatLocks st)"
    unfolding checkExpiredReservations_def sweep_locks[OF ids]
    by (rule map_cong[OF refl]) (simp only: member)
  have seats: "seats ?st' = map (\<lambda>s. if seat_state s = PAYMENT_PENDING
                         \<and> (\<exists>l \<in> set (seatLocks st). isExpiredCart now l
                               \<and> pendingReservationId s = Some (lock_id l))
                      then released s else s) (seats st)"
    unfolding checkExpiredReservations_def sweep_seats
    by (rule map_cong) (auto simp: releaseFilter_def)
  have gateway: "\<forall>l \<in> set (seatLocks st). numericState l = IN_PAYMENT_GATEWAY \<longrightarrow>
           l \<in> set (seatLocks ?st')
           \<and> (\<forall>s \<in> set (seats st). pendingUnder (lock_id l) s \<longrightarrow> s \<in> set (seats ?st'))"
  proof (intro ballI impI conjI)
    fix l assume l: "l \<in> set (seatLocks st)" and g: "numericState l = IN_PAYMENT_GATEWAY"
    then have notexp: "\<not> isExpiredCart now l" by (simp add: isExpiredCart_def)
    with l show "l \<in> set (seatLocks ?st')"
      unfolding locks by (force simp: image_iff)
    fix s assume s: "s \<in> set (seats st)" and p: "pendingUnder (lock_id l) s"
    have "\<not> (\<exists>e \<in> set (seatLocks st). isExpiredCart now e
                \<and> pendingReservationId s = Some (lock_id e))"
    proof
      assume "\<exists>e \<in> set (seatLocks st). isExpiredCart now e \<and> pendingReservationId s = Some (lock_id e)"
      then obtain e where e: "e \<in> set (seatLocks st)" "isExpiredCart now e"
          "pendingReservationId s = Some (lock_id e)" by blast
      with p have "lock_id e = lock_id l" by (simp add: pendingUnder_def)
      with e l inj have "e = l" by (auto dest: inj_onD)
      with e notexp show False by simp
    qed
    with s show "s \<in> set (seats ?st')"
      unfolding seats by (force simp: image_iff)
  qed
  from locks seats gateway show ?thesis by blast
qed

theorem checkExpiredReservations_exact_witness:
  "seatLocks (checkExpiredReservations 200 exampleSys)
      = [cartLock\<lparr>lock_status := CANCELLED, numericState := TIMEOUT\<rparr>, gatewayLock]
   \<and> seats (checkExpiredReservations 200 exampleSys)
      = [seatA1\<lparr>seat_state := AVAILABLE, pendingReservationId := None\<rparr>, seatB1]"
proof -
  have ids: "distinct (map lock_id (seatLocks exampleSys))"
    by (simp add: exampleSys_def cartLock_def gatewayLock_def)
  have c: "isExpiredCart 200 cartLock" and g: "\<not> isExpiredCart 200 gatewayLock"
    by (simp_all add: isExpiredCart_def cartLock_def gatewayLock_def)
  have ids1: "lock_id cartLock = ''R1''" "lock_id gatewayLock = ''R2''"
    by (simp_all add: cartLock_def gatewayLock_def)
  have s: "seat_state seatA1 = PAYMENT_PENDING" "pendingReservationId seatA1 = Some ''R1''"
    "seat_state seatB1 = PAYMENT_PENDING" "pendingReservationId seatB1 = Some ''R2''"
    by (simp_all add: seatA1_def seatB1_def)
  from checkExpiredReservations_exact[OF ids, of 200] show ?thesis
    by (simp add: exampleSys_def c g ids1 s timedOut_def released_def)
qed

text \<open>
  The claim as stated selects by numeric state and deadline alone.  A reservation that
  its user cancelled in the cart (cancelReservation) still has numeric state -1; with
  its deadline passed the sweeper leaves it as it is, numeric state -1 and not -3,
  because the scan also asks for the status pending_payment.
\<close>

theorem cancelled_cart_not_swept_counterexample:
  "seatLocks cancelledSys = [cartLock\<lparr>lock_status := CANCELLED\<rparr>]
   \<and> numericState (cartLock\<lparr>lock_status := CANCELLED\<rparr>) = CART_TO_PAYMENT
   \<and> expiresAt (cartLock\<lparr>lock_status := CANCELLED\<rparr>) < 200
   \<and> seatLocks (checkExpiredReservations 200 cancelledSys) = [cartLock\<lparr>lock_status := CANCELLED\<rparr>]
   \<and> numericState (cartLock\<lparr>lock_status := CANCELLED\<rparr>) \<noteq> TIMEOUT"
proof -
  have c: "seatLocks cancelledSys = [cartLock\<lparr>lock_status := CANCELLED\<rparr>]"
    by (simp add: cancelledSys_def cancelReservation_def cartSys_def findLockById_def findOne_def
        saveLock_def cartLock_def)
  have "filter (isExpiredCart 200) (seatLocks cancelledSys) = []"
    by (simp add: c isExpiredCart_def)
  then have "checkExpiredReservations 200 cancelledSys = cancelledSys"
    by (simp add: checkExpiredReservations_def)
  with c show ?thesis by (simp add: cartLock_def)
qed

subsection \<open>Expiry at confirmation and in the store\<close>

text \<open>
  The expiry check of confirmBooking reads the status and the deadline of the
  reservation, not its numeric state.
\<close>

lemma confirmBooking_expired:
  assumes "findLockById rid (seatLocks st) = Some l"
      and "lock_status l = PENDING_PAYMENT"
      and "expiresAt l < now"
  shows "snd (confirmBooking rt env rid pid now st) = Inl (BadRequestException ''Reservation has expired'')"
  using assms by (simp add: confirmBooking_def)

text \<open>
  Claim C1.  Reservation R2 is at the gateway (numeric state -2, status
  pending_payment) with deadline 100 and holds seat B1.  At time 101 confirmBooking
  rejects it with "Reservation has expired", and through cancelReservation it has
  released seat B1 and cancelled the reservation; the payment callback of a successful
  payment, which calls confirmBooking, fails in the same way.
\<close>

theorem confirmBooking_rejects_expired_gateway:
  "numericState gatewayLock = IN_PAYMENT_GATEWAY
   \<and> findLockById ''R2'' (seatLocks exampleSys) = Some gatewayLock
   \<and> snd (confirmBooking exampleRuntime allServicesUp ''R2'' (Some ''T1'') 101 exampleSys)
       = Inl (BadRequestException ''Reservation has expired'')
   \<and> seats (fst (confirmBooking exampleRuntime allServicesUp ''R2'' (Some ''T1'') 101 exampleSys))
       = [seatA1, seatB1\<lparr>seat_state := AVAILABLE, pendingReservationId := None\<rparr>]
   \<and> seatLocks (fst (confirmBooking exampleRuntime allServicesUp ''R2'' (Some ''T1'') 101 exampleSys))
       = [cartLock, gatewayLock\<lparr>lock_status := CANCELLED\<rparr>]
   \<and> snd (handleDialogGenieCallback exampleRuntime allServicesUp ''T1'' ''SUCCESS'' 101 exampleSys)
       = Inl (BadRequestException ''Reservation has expired'')"
proof -
  have f: "findLockById ''R2'' (seatLocks exampleSys) = Some gatewayLock"
    by (simp add: findLockById_def findOne_def exampleSys_def cartLock_def gatewayLock_def)
  have c: "cancelReservation ''R2'' exampleSys
      = (exampleSys\<lparr>seats := [seatA1, seatB1\<lparr>seat_state := AVAILABLE, pendingReservationId := None\<rparr>],
            seatLocks := [cartLock, gatewayLock\<lparr>lock_status := CANCELLED\<rparr>]\<rparr>, Inr ''R2'')"
    by (simp add: cancelReservation_def f)
       (simp add: exampleSys_def releaseSeatsByReservation_def updateMany_def releaseFilter_def
         saveLock_def seatA1_def seatB1_def cartLock_def gatewayLock_def)
  have e: "confirmBooking exampleRuntime allServicesUp ''R2'' (Some ''T1'') 101 exampleSys
      = (fst (cancelReservation ''R2'' exampleSys), Inl (BadRequestException ''Reservation has expired''))"
    by (simp add: confirmBooking_def f) (simp add: gatewayLock_def)
  have l: "callbackLookup ''T1'' exampleSys = Some gatewayLock"
    by (simp add: callbackLookup_def findByPaymentIntentId_def findOne_def exampleSys_def
        cartLock_def gatewayLock_def)
  let ?st1 = "exampleSys\<lparr>seatLocks := saveLock ''R2'' (\<lambda>l. l\<lparr>numericState := PAYMENT_SUCCESS\<rparr>)
                 (seatLocks exampleSys)\<rparr>"
  have f1: "findLockById ''R2'' (seatLocks ?st1) = Some (gatewayLock\<lparr>numericState := PAYMENT_SUCCESS\<rparr>)"
    by (simp add: findLockById_def findOne_def saveLock_def exampleSys_def cartLock_def gatewayLock_def)
  have e1: "snd (confirmBooking exampleRuntime allServicesUp ''R2'' (Some ''T1'') 101 ?st1)
      = Inl (BadRequestException ''Reservation has expired'')"
    by (rule confirmBooking_expired[OF f1]) (simp_all add: gatewayLock_def)
  have lid: "lock_id gatewayLock = ''R2''" by (simp add: gatewayLock_def)
  obtain st2 where st2: "confirmBooking exampleRuntime allServicesUp ''R2'' (Some ''T1'') 101 ?st1
      = (st2, Inl (BadRequestException ''Reservation has expired''))"
    using e1 by (cases "confirmBooking exampleRuntime allServicesUp ''R2'' (Some ''T1'') 101 ?st1") simp
  have cb: "snd (handleDialogGenieCallback exampleRuntime allServicesUp ''T1'' ''SUCCESS'' 101 exampleSys)
      = Inl (BadRequestException ''Reservation has expired'')"
    by (simp add: handleDialogGenieCallback_def l lid f st2 Let_def)
  have n: "numericState gatewayLock = IN_PAYMENT_GATEWAY" by (simp add: gatewayLock_def)
  from n f c e cb show ?thesis by simp
qed


text \<open>The index of the schema has no filter: it expires by the deadline alone.\<close>

lemma ttlPurge_SeatLockSchema:
  "ttlPurge SeatLockSchema_ttl now locks = filter (\<lambda>l. now \<le> expiresAt l) locks"
  by (simp add: ttlPurge_def ttlExpired_def SeatLockSchema_ttl_def not_less)

text \<open>
  Claim C7.  With the TTL index that the schema declares, a pass of the store's TTL
  monitor at time 101 deletes the reservation R2 with deadline 100 while it is at the
  gateway (numeric state -2), and deletes it as well when it is paid (status completed,
  numeric state 1).
\<close>

theorem ttlPurge_deletes_gateway_and_paid:
  "numericState gatewayLock = IN_PAYMENT_GATEWAY
   \<and> ttlPurge SeatLockSchema_ttl 101 [gatewayLock] = []
   \<and> ttlPurge SeatLockSchema_ttl 101
        [gatewayLock\<lparr>lock_status := COMPLETED, numericState := PAYMENT_SUCCESS\<rparr>] = []"
  by (simp add: ttlPurge_SeatLockSchema gatewayLock_def)

subsection \<open>Payment reconciliation\<close>

text \<open>
  After two payment intents for reservation R1 the reservation carries the second
  transaction id and the backup record, which is written once, the first.
\<close>

lemma paidTwiceSys_value:
  "paidTwiceSys = cartSys
     \<lparr>seatLocks := [cartLock\<lparr>numericState := IN_PAYMENT_GATEWAY, paymentIntentId := Some ''T2''\<rparr>],
      seatLockBackups := [\<lparr>backup_id = ''R1'', backup_seatIds = [''A1''],
         backup_numericState = IN_PAYMENT_GATEWAY, backup_expiresAt = 100,
         backup_paymentIntentId = Some ''T1''\<rparr>]\<rparr>"
proof -
  have t: "js_trim exampleRuntime ''key'' = ''key''"
    by (simp add: exampleRuntime_def trimAscii_def isWhiteSpace_def)
  have 1: "fst (createPaymentIntent exampleRuntime ''R1'' None (gatewayAnswers ''T1'') cartSys) = cartSys
     \<lparr>seatLocks := [cartLock\<lparr>numericState := IN_PAYMENT_GATEWAY, paymentIntentId := Some ''T1''\<rparr>],
      seatLockBackups := [\<lparr>backup_id = ''R1'', backup_seatIds = [''A1''],
         backup_numericState = IN_PAYMENT_GATEWAY, backup_expiresAt = 100,
         backup_paymentIntentId = Some ''T1''\<rparr>]\<rparr>"
    by (simp add: createPaymentIntent_def cartSys_def findLockById_def findOne_def cartLock_def
        gatewayAnswers_def truthy_def t Let_def setSeatsToPaymentPending_def updateMany_def
        pendingFilter_def seatA1_def setPaymentStateOf_def saveLock_def createBackup_def)
  have 2: "fst (createPaymentIntent exampleRuntime ''R1'' None (gatewayAnswers ''T2'') (cartSys
     \<lparr>seatLocks := [cartLock\<lparr>numericState := IN_PAYMENT_GATEWAY, paymentIntentId := Some ''T1''\<rparr>],
      seatLockBackups := [\<lparr>backup_id = ''R1'', backup_seatIds = [''A1''],
         backup_numericState = IN_PAYMENT_GATEWAY, backup_expiresAt = 100,
         backup_paymentIntentId = Some ''T1''\<rparr>]\<rparr>)) = cartSys
     \<lparr>seatLocks := [cartLock\<lparr>numericState := IN_PAYMENT_GATEWAY, paymentIntentId := Some ''T2''\<rparr>],
      seatLockBackups := [\<lparr>backup_id = ''R1'', backup_seatIds = [''A1''],
         backup_numericState = IN_PAYMENT_GATEWAY, backup_expiresAt = 100,
         backup_paymentIntentId = Some ''T1''\<rparr>]\<rparr>"
    by (simp add: createPaymentIntent_def cartSys_def findLockById_def findOne_def cartLock_def
        gatewayAnswers_def truthy_def t Let_def setSeatsToPaymentPending_def updateMany_def
        pendingFilter_def seatA1_def setPaymentStateOf_def saveLock_def createBackup_def)
  show ?thesis by (simp add: paidTwiceSys_def run_def 1 2)
qed

text \<open>
  Claim C8.  The redirect of the first payment carries transaction id T1 and no
  reservation id.  The backup lookup resolves T1 to reservation R1, and the lookups of
  handleDialogGenieCallback and checkAndConfirmBooking find R1 that way; the lookup of
  handleDialogGenieRedirect tries the reservation id and the primary collection only
  and answers with the error page "Reservation not found".
\<close>

theorem redirect_skips_backup_lookup:
  "findViaBackup ''T1'' paidTwiceSys
      = Some (cartLock\<lparr>numericState := IN_PAYMENT_GATEWAY, paymentIntentId := Some ''T2''\<rparr>)
   \<and> callbackLookup ''T1'' paidTwiceSys
      = Some (cartLock\<lparr>numericState := IN_PAYMENT_GATEWAY, paymentIntentId := Some ''T2''\<rparr>)
   \<and> checkAndConfirmLookup ''unknown'' (Some ''T1'') paidTwiceSys
      = Some (cartLock\<lparr>numericState := IN_PAYMENT_GATEWAY, paymentIntentId := Some ''T2''\<rparr>)
   \<and> handleDialogGenieRedirect exampleRuntime allServicesUp redirectOfT1 60 paidTwiceSys
      = (paidTwiceSys, ErrorPage ''Reservation not found. Please contact support.'')"
proof -
  have b: "findViaBackup ''T1'' paidTwiceSys
      = Some (cartLock\<lparr>numericState := IN_PAYMENT_GATEWAY, paymentIntentId := Some ''T2''\<rparr>)"
    by (simp add: paidTwiceSys_value findViaBackup_def findOne_def findLockById_def cartSys_def
        cartLock_def)
  have p: "findByPaymentIntentId ''T1'' (seatLocks paidTwiceSys) = None"
    by (simp add: paidTwiceSys_value findByPaymentIntentId_def findOne_def cartSys_def cartLock_def)
  have i: "findLockById ''unknown'' (seatLocks paidTwiceSys) = None"
    by (simp add: paidTwiceSys_value findLockById_def findOne_def cartSys_def cartLock_def)
  have c: "callbackLookup ''T1'' paidTwiceSys
      = Some (cartLock\<lparr>numericState := IN_PAYMENT_GATEWAY, paymentIntentId := Some ''T2''\<rparr>)"
    by (simp add: callbackLookup_def p b)
  have k: "checkAndConfirmLookup ''unknown'' (Some ''T1'') paidTwiceSys
      = Some (cartLock\<lparr>numericState := IN_PAYMENT_GATEWAY, paymentIntentId := Some ''T2''\<rparr>)"
    by (simp add: checkAndConfirmLookup_def i p b truthy_def)
  have r: "handleDialogGenieRedirect exampleRuntime allServicesUp redirectOfT1 60 paidTwiceSys
      = (paidTwiceSys, ErrorPage ''Reservation not found. Please contact support.'')"
    by (simp add: handleDialogGenieRedirect_def redirectOfT1_def redirectLookup_def truthy_def
        Let_def p)
  from b c k r show ?thesis by simp
qed

subsection \<open>Confirmation\<close>

lemma findLockById_id: "findLockById rid locks = Some l \<Longrightarrow> lock_id l = rid"
  by (auto simp: findLockById_def findOne_def find_Some_iff)

lemma findLockById_saveLock:
  assumes "\<And>l. lock_id (f l) = lock_id l"
  shows "findLockById r (saveLock rid f locks)
     = (if r = rid then map_option f (findLockById r locks) else findLockById r locks)"
  using assms
  by (induction locks) (auto simp: findLockById_def findOne_def saveLock_def)

lemma createBookings_ok:
  "createBookings rt l seatDocs ids n = (bs, n', True) \<Longrightarrow>
   map booking_seatId bs = ids \<and> list_all (\<lambda>b. booking_reservationId b = lock_id l) bs
   \<and> map booking_id bs = [n ..< n + length ids]"
proof (induction ids arbitrary: n bs n')
  case Nil
  then show ?case by simp
next
  case (Cons seatId rest)
  show ?case
  proof (cases "seatsFindOne seatId seatDocs")
    case None
    with Cons.prems show ?thesis by (simp split: prod.splits)
  next
    case (Some seat)
    obtain bs0 n0 ok0 where r: "createBookings rt l seatDocs rest (Suc n) = (bs0, n0, ok0)"
      by (cases "createBookings rt l seatDocs rest (Suc n)") auto
    with Cons.prems Some have eq: "bs = newBooking rt l seat seatId n # bs0" "ok0 = True"
      by simp_all
    from Cons.IH[of "Suc n" bs0 n0] r eq(2)
    have ih: "map booking_seatId bs0 = rest"
      "list_all (\<lambda>b. booking_reservationId b = lock_id l) bs0"
      "map booking_id bs0 = [Suc n ..< Suc n + length rest]"
      by simp_all
    show ?thesis
      using ih eq by (simp add: newBooking_def Let_def upt_rec)
  qed
qed

lemma bookingsOf_append: "bookingsOf rid (xs @ ys) = bookingsOf rid xs @ bookingsOf rid ys"
  by (simp add: bookingsOf_def)

lemma bookingsOf_all:
  "list_all (\<lambda>b. booking_reservationId b = rid) bs \<Longrightarrow> bookingsOf rid bs = bs"
  by (simp add: bookingsOf_def list_all_iff)

lemma finishConfirm_result:
  "finishConfirm env l bs st = (st', Inr r) \<Longrightarrow>
   st' = st \<and> r = \<lparr>confirm_reservationId = lock_id l, confirm_bookings = map booking_id bs,
                     confirmedSeats = lock_seatIds l\<rparr>"
  by (auto simp: finishConfirm_def split: option.splits)


lemma confirmSeatsAndBook_success:
  assumes run: "confirmSeatsAndBook rt env rid pid l st = (st1, Inr r1)"
      and lock: "findLockById rid (seatLocks st) = Some l"
  shows "findLockById rid (seatLocks st1) = Some (confirmedLock pid l)
     \<and> r1 = \<lparr>confirm_reservationId = rid,
              confirm_bookings = map booking_id (bookingsOf rid (bookings st1)),
              confirmedSeats = lock_seatIds l\<rparr>
     \<and> (bookingsOf rid (bookings st) \<noteq> [] \<longrightarrow> bookings st1 = bookings st)
     \<and> (bookingsOf rid (bookings st) = [] \<longrightarrow>
            map booking_seatId (bookingsOf rid (bookings st1)) = lock_seatIds l)"
proof -
  have lid: "lock_id l = rid" using lock by (rule findLockById_id)
  obtain seats1 cnt where conf: "atomicConfirmSeats (lock_seatIds l) rid (seats st) = (seats1, cnt)"
    by (cases "atomicConfirmSeats (lock_seatIds l) rid (seats st)") auto
  let ?locks1 = "saveLock rid (\<lambda>l. l\<lparr>lock_status := COMPLETED,
        paymentIntentId := (if truthy pid then pid else paymentIntentId l)\<rparr>) (seatLocks st)"
  let ?st1 = "st\<lparr>seats := seats1, seatLocks := ?locks1\<rparr>"
  have cnt: "cnt = length (lock_seatIds l)"
    using run conf by (simp add: confirmSeatsAndBook_def split: if_splits)
  have found: "findLockById rid ?locks1 = Some (confirmedLock pid l)"
    by (simp add: findLockById_saveLock lock confirmedLock_def)
  show ?thesis
  proof (cases "bookingsOf rid (bookings st) = []")
    case False
    with run conf cnt have "finishConfirm env l (bookingsOf rid (bookings st)) ?st1 = (st1, Inr r1)"
      by (simp add: confirmSeatsAndBook_def Let_def)
    from finishConfirm_result[OF this] False found lid show ?thesis by simp
  next
    case True
    obtain created newId ok where cb:
      "createBookings rt l seats1 (lock_seatIds l) (nextBookingId st) = (created, newId, ok)"
      by (cases "createBookings rt l seats1 (lock_seatIds l) (nextBookingId st)") auto
    let ?st2 = "?st1\<lparr>bookings := bookings st @ created, nextBookingId := newId\<rparr>"
    from run conf cnt True cb have ok: "ok"
      by (auto simp: confirmSeatsAndBook_def Let_def split: if_splits)
    with run conf cnt True cb have "finishConfirm env l created ?st2 = (st1, Inr r1)"
      by (simp add: confirmSeatsAndBook_def Let_def)
    from finishConfirm_result[OF this] have st1: "st1 = ?st2"
      and r1: "r1 = \<lparr>confirm_reservationId = lock_id l, confirm_bookings = map booking_id created,
                     confirmedSeats = lock_seatIds l\<rparr>" by simp_all
    from createBookings_ok cb ok have c: "map booking_seatId created = lock_seatIds l"
      "list_all (\<lambda>b. booking_reservationId b = rid) created"
      using lid by auto
    have b: "bookingsOf rid (bookings st1) = created"
      using True c(2) by (simp add: st1 bookingsOf_append bookingsOf_all)
    from st1 r1 b c True found lid show ?thesis by simp
  qed
qed

lemma confirmBooking_success:
  assumes run: "confirmBooking rt env rid pid now st = (st1, Inr r1)"
      and lock: "findLockById rid (seatLocks st) = Some l"
  shows "(\<exists>l1. findLockById rid (seatLocks st1) = Some l1 \<and> lock_status l1 = COMPLETED
             \<and> lock_seatIds l1 = lock_seatIds l)
     \<and> r1 = \<lparr>confirm_reservationId = rid,
              confirm_bookings = map booking_id (bookingsOf rid (bookings st1)),
              confirmedSeats = lock_seatIds l\<rparr>
     \<and> (bookingsOf rid (bookings st) \<noteq> [] \<longrightarrow> bookings st1 = bookings st)
     \<and> (bookingsOf rid (bookings st) = [] \<longrightarrow>
            map booking_seatId (bookingsOf rid (bookings st1)) = lock_seatIds l)"
proof (cases "lock_status l = COMPLETED \<and> bookingsOf rid (bookings st) \<noteq> []")
  case True
  with run lock have st1: "st1 = st\<lparr>seatLocks :=
         (if truthy pid \<and> \<not> truthy (paymentIntentId l)
          then saveLock rid (\<lambda>l. l\<lparr>paymentIntentId := pid\<rparr>) (seatLocks st) else seatLocks st)\<rparr>"
    and r1: "r1 = \<lparr>confirm_reservationId = rid,
              confirm_bookings = map booking_id (bookingsOf rid (bookings st)),
              confirmedSeats = lock_seatIds l\<rparr>"
    by (simp_all add: confirmBooking_def)
  have "\<exists>l1. findLockById rid (seatLocks st1) = Some l1 \<and> lock_status l1 = COMPLETED
             \<and> lock_seatIds l1 = lock_seatIds l"
    using True lock by (simp add: st1 findLockById_saveLock)
  with st1 r1 True show ?thesis by simp
next
  case False
  with run lock have "confirmSeatsAndBook rt env rid pid l st = (st1, Inr r1)"
    by (auto simp: confirmBooking_def split: if_splits)
  from confirmSeatsAndBook_success[OF this lock] show ?thesis
    by (auto simp: confirmedLock_def)
qed

lemma confirmBooking_again:
  assumes lock: "findLockById rid (seatLocks st) = Some l"
      and completed: "lock_status l = COMPLETED"
      and some: "bookingsOf rid (bookings st) \<noteq> []"
  shows "snd (confirmBooking rt env rid pid now st)
           = Inr \<lparr>confirm_reservationId = rid,
                  confirm_bookings = map booking_id (bookingsOf rid (bookings st)),
                  confirmedSeats = lock_seatIds l\<rparr>
     \<and> bookings (fst (confirmBooking rt env rid pid now st)) = bookings st
     \<and> seats (fst (confirmBooking rt env rid pid now st)) = seats st"
  using assms by (simp add: confirmBooking_def)


text \<open>
  Claim C4.  Let a first call of confirmBooking succeed for a reservation that has at
  least one seat.  Then every further call, with any payment id, at any time and
  whatever the collaborators answer, returns the same result with the same booking ids,
  adds no booking and changes no seat, and the ids it returns are those of the bookings
  of the reservation in the store.  When the store held, before the first call, no
  booking of this reservation or one per seat (the two cases that confirmBooking, the
  one writer of bookings, produces), the bookings of the reservation after the calls
  are one for each seat of the reservation.
\<close>

theorem confirmBooking_idempotent:
  assumes first: "confirmBooking rt env rid pid now st = (st1, Inr r1)"
      and lock: "findLockById rid (seatLocks st) = Some l"
      and nonempty: "lock_seatIds l \<noteq> []"
  shows "snd (confirmBooking rt env2 rid pid2 now2 st1) = Inr r1
     \<and> bookings (fst (confirmBooking rt env2 rid pid2 now2 st1)) = bookings st1
     \<and> seats (fst (confirmBooking rt env2 rid pid2 now2 st1)) = seats st1
     \<and> confirm_bookings r1 = map booking_id (bookingsOf rid (bookings st1))
     \<and> (bookingsOf rid (bookings st) = []
          \<or> map booking_seatId (bookingsOf rid (bookings st)) = lock_seatIds l
         \<longrightarrow> map booking_seatId (bookingsOf rid (bookings st1)) = lock_seatIds l)"
proof -
  from confirmBooking_success[OF first lock] obtain l1 where
    l1: "findLockById rid (seatLocks st1) = Some l1" "lock_status l1 = COMPLETED"
        "lock_seatIds l1 = lock_seatIds l"
    and r1: "r1 = \<lparr>confirm_reservationId = rid,
              confirm_bookings = map booking_id (bookingsOf rid (bookings st1)),
              confirmedSeats = lock_seatIds l\<rparr>"
    and kept: "bookingsOf rid (bookings st) \<noteq> [] \<longrightarrow> bookings st1 = bookings st"
    and made: "bookingsOf rid (bookings st) = [] \<longrightarrow>
            map booking_seatId (bookingsOf rid (bookings st1)) = lock_seatIds l"
    by blast
  have some: "bookingsOf rid (bookings st1) \<noteq> []"
  proof (cases "bookingsOf rid (bookings st) = []")
    case True
    with made nonempty show ?thesis by auto
  next
    case False
    with kept show ?thesis by simp
  qed
  have perSeat: "bookingsOf rid (bookings st) = []
          \<or> map booking_seatId (bookingsOf rid (bookings st)) = lock_seatIds l
         \<longrightarrow> map booking_seatId (bookingsOf rid (bookings st1)) = lock_seatIds l"
    using kept made by auto
  from confirmBooking_again[OF l1(1) l1(2) some, of rt env2 pid2 now2] r1 l1(3) perSeat
  show ?thesis by simp
qed

lemma confirm_example:
  "confirmBooking exampleRuntime allServicesUp ''R2'' (Some ''T1'') 50 exampleSys
     = (exampleSys\<lparr>seats := [seatA1, seatB1\<lparr>seat_state := BOOKED, pendingReservationId := None\<rparr>],
          seatLocks := [cartLock, gatewayLock\<lparr>lock_status := COMPLETED\<rparr>],
          bookings := [\<lparr>booking_id = 0, booking_reservationId = ''R2'', booking_eventId = ''E1'',
             booking_seatId = ''B1'', pricePaid = 1100, commissionAmount = 100,
             paymentState = PENDING, dialogPaymentId = None\<rparr>],
          nextBookingId := 1\<rparr>,
        Inr \<lparr>confirm_reservationId = ''R2'', confirm_bookings = [0], confirmedSeats = [''B1'']\<rparr>)"
proof -
  have f: "findLockById ''R2'' (seatLocks exampleSys) = Some gatewayLock"
    by (simp add: findLockById_def findOne_def exampleSys_def cartLock_def gatewayLock_def)
  have g: "lock_status gatewayLock = PENDING_PAYMENT" "expiresAt gatewayLock = 100"
    "lock_seatIds gatewayLock = [''B1'']" "lock_id gatewayLock = ''R2''"
    "phoneNumber gatewayLock = Some ''0771234567''" "lock_eventId gatewayLock = ''E1''"
    "paymentIntentId gatewayLock = Some ''T1''"
    "amountSummary gatewayLock = Some \<lparr>subtotal = 1000, commission = 100, taxes = 0, total = 1100\<rparr>"
    by (simp_all add: gatewayLock_def)
  have a: "atomicConfirmSeats [''B1''] ''R2'' (seats exampleSys)
      = ([seatA1, seatB1\<lparr>seat_state := BOOKED, pendingReservationId := None\<rparr>], 1)"
    by (simp add: atomicConfirmSeats_def updateMany_def matchedCount_def confirmFilter_def
        exampleSys_def seatA1_def seatB1_def)
  have s: "saveLock ''R2'' (\<lambda>l. l\<lparr>lock_status := COMPLETED, paymentIntentId := Some ''T1''\<rparr>)
        (seatLocks exampleSys) = [cartLock, gatewayLock\<lparr>lock_status := COMPLETED\<rparr>]"
    by (simp add: saveLock_def exampleSys_def cartLock_def gatewayLock_def)
  have b: "seatsFindOne ''B1'' [seatA1, seatB1\<lparr>seat_state := BOOKED, pendingReservationId := None\<rparr>]
      = Some (seatB1\<lparr>seat_state := BOOKED, pendingReservationId := None\<rparr>)"
    by (simp add: seatsFindOne_def findOne_def seatA1_def seatB1_def)
  have e: "findEvent ''E1'' (events exampleSys) = Some eventE1"
    by (simp add: findEvent_def findOne_def exampleSys_def eventE1_def)
  have nb: "newBooking exampleRuntime gatewayLock (seatB1\<lparr>seat_state := BOOKED, pendingReservationId := None\<rparr>) ''B1'' 0
      = \<lparr>booking_id = 0, booking_reservationId = ''R2'', booking_eventId = ''E1'',
             booking_seatId = ''B1'', pricePaid = 1100, commissionAmount = 100,
             paymentState = PENDING, dialogPaymentId = None\<rparr>"
    by (simp add: newBooking_def g seatB1_def exampleRuntime_def)
  have x: "bookings exampleSys = []" "nextBookingId exampleSys = 0"
    by (simp_all add: exampleSys_def)
  show ?thesis
    by (simp add: confirmBooking_def f g confirmSeatsAndBook_def a s x bookingsOf_def b nb
        finishConfirm_def notifyPhase_def truthy_def allServicesUp_def e)
qed

theorem confirmBooking_idempotent_witness:
  "snd (confirmBooking exampleRuntime allServicesUp ''R2'' (Some ''T1'') 50 exampleSys)
     = Inr \<lparr>confirm_reservationId = ''R2'', confirm_bookings = [0], confirmedSeats = [''B1'']\<rparr>
   \<and> snd (confirmBooking exampleRuntime allServicesUp ''R2'' (Some ''T1'') 200
            (fst (confirmBooking exampleRuntime allServicesUp ''R2'' (Some ''T1'') 50 exampleSys)))
     = Inr \<lparr>confirm_reservationId = ''R2'', confirm_bookings = [0], confirmedSeats = [''B1'']\<rparr>
   \<and> bookings (fst (confirmBooking exampleRuntime allServicesUp ''R2'' (Some ''T1'') 200
            (fst (confirmBooking exampleRuntime allServicesUp ''R2'' (Some ''T1'') 50 exampleSys))))
     = bookings (fst (confirmBooking exampleRuntime allServicesUp ''R2'' (Some ''T1'') 50 exampleSys))
   \<and> map booking_seatId (bookingsOf ''R2''
        (bookings (fst (confirmBooking exampleRuntime allServicesUp ''R2'' (Some ''T1'') 50 exampleSys)))) = [''B1'']"
proof -
  have first: "confirmBooking exampleRuntime allServicesUp ''R2'' (Some ''T1'') 50 exampleSys
     = (fst (confirmBooking exampleRuntime allServicesUp ''R2'' (Some ''T1'') 50 exampleSys),
        Inr \<lparr>confirm_reservationId = ''R2'', confirm_bookings = [0], confirmedSeats = [''B1'']\<rparr>)"
    by (simp add: confirm_example)
  have lock: "findLockById ''R2'' (seatLocks exampleSys) = Some gatewayLock"
    by (simp add: findLockById_def findOne_def exampleSys_def cartLock_def gatewayLock_def)
  have nonempty: "lock_seatIds gatewayLock \<noteq> []" by (simp add: gatewayLock_def)
  have pre: "bookingsOf ''R2'' (bookings exampleSys) = []
      \<or> map booking_seatId (bookingsOf ''R2'' (bookings exampleSys)) = lock_seatIds gatewayLock"
    by (simp add: bookingsOf_def exampleSys_def)
  have ids: "lock_seatIds gatewayLock = [''B1'']" by (simp add: gatewayLock_def)
  have s1: "snd (confirmBooking exampleRuntime allServicesUp ''R2'' (Some ''T1'') 50 exampleSys)
     = Inr \<lparr>confirm_reservationId = ''R2'', confirm_bookings = [0], confirmedSeats = [''B1'']\<rparr>"
    by (simp add: confirm_example)
  from confirmBooking_idempotent[OF first lock nonempty, of allServicesUp "Some ''T1''" 200] pre
  show ?thesis unfolding ids using s1 by blast
qed

subsection \<open>Monotonicity of the numeric state\<close>

text \<open>
  Every operation writes reservations through \<open>saveLock\<close> with an update that keeps the
  numeric state or sets it to -2, -3 or 1, or appends a new reservation; so each
  operation is in the relation \<open>keeps\<close>, which is reflexive and transitive.
\<close>

lemma keeps_refl [simp]: "keeps r locks locks"
  by (simp add: keeps_def split: option.splits)

lemma keeps_trans: "keeps r a b \<Longrightarrow> keeps r b c \<Longrightarrow> keeps r a c"
  by (auto simp: keeps_def afterCart_def split: option.splits)

lemma keeps_saveLock:
  assumes "\<And>l. lock_id (f l) = lock_id l"
      and "\<And>l. numericState (f l) = numericState l \<or> afterCart (numericState (f l))"
  shows "keeps r locks (saveLock rid f locks)"
  using assms(2) by (auto simp: keeps_def findLockById_saveLock[OF assms(1)] split: option.splits)

lemma find_snoc:
  "find P (xs @ [y]) = (case find P xs of None \<Rightarrow> (if P y then Some y else None) | Some x \<Rightarrow> Some x)"
  by (induction xs) auto

lemma keeps_append: "keeps r locks (locks @ [x])"
  by (auto simp: keeps_def findLockById_def findOne_def find_snoc split: option.splits)

lemma keeps_cancelReservation:
  "keeps r (seatLocks st) (seatLocks (fst (cancelReservation rid st)))"
  by (simp add: cancelReservation_def keeps_saveLock split: option.splits)

lemma keeps_updateTickets:
  "keeps r (seatLocks st) (seatLocks (fst (updateTickets rt rid dto st)))"
  by (simp add: updateTickets_def Let_def keeps_saveLock split: option.splits)

lemma keeps_createReservation:
  "keeps r (seatLocks st) (seatLocks (fst (createReservation rt dto uuid now st)))"
  by (simp add: createReservation_def Let_def keeps_append split: option.splits prod.splits)

lemma keeps_expireLock: "keeps r (seatLocks st) (seatLocks (expireLock st e))"
  by (simp add: expireLock_def keeps_saveLock afterCart_def)

lemma keeps_sweep: "keeps r (seatLocks st) (seatLocks (checkExpiredReservations now st))"
proof -
  have "keeps r (seatLocks st) (seatLocks (foldl expireLock st es))" for es
  proof (induction es arbitrary: st)
    case Nil
    show ?case by simp
  next
    case (Cons e es)
    from keeps_trans[OF keeps_expireLock Cons.IH] show ?case by simp
  qed
  then show ?thesis by (simp add: checkExpiredReservations_def)
qed

lemma keeps_createPaymentIntent:
  "keeps r (seatLocks st) (seatLocks (fst (createPaymentIntent rt rid customerInfo env st)))"
proof -
  have c: "keeps r locks (saveLock rid (saveCustomer p c) locks)" for locks p c
    by (rule keeps_saveLock) (simp_all add: saveCustomer_def)
  have g: "keeps r locks (saveLock rid (\<lambda>l. l\<lparr>numericState := IN_PAYMENT_GATEWAY,
                paymentIntentId := Some t\<rparr>) locks)" for locks t
    by (rule keeps_saveLock) (simp_all add: afterCart_def)
  have cg: "keeps r locks (saveLock rid (\<lambda>l. l\<lparr>numericState := IN_PAYMENT_GATEWAY,
                paymentIntentId := Some t\<rparr>) (saveLock rid (saveCustomer p c) locks))" for locks t p c
    using keeps_trans[OF c g] .
  show ?thesis
    by (simp add: createPaymentIntent_def Let_def c g cg split: option.splits prod.splits)
qed

lemma seatLocks_finishConfirm [simp]: "fst (finishConfirm env l bs st) = st"
  by (simp add: finishConfirm_def split: option.splits)

lemma keeps_confirmSeatsAndBook:
  "keeps r (seatLocks st) (seatLocks (fst (confirmSeatsAndBook rt env rid pid l st)))"
proof -
  have s: "keeps r locks (saveLock rid (\<lambda>l. l\<lparr>lock_status := COMPLETED,
        paymentIntentId := (if truthy pid then pid else paymentIntentId l)\<rparr>) locks)" for locks
    by (rule keeps_saveLock) simp_all
  show ?thesis
    by (simp add: confirmSeatsAndBook_def Let_def s split: prod.splits)
qed

lemma keeps_confirmBooking:
  "keeps r (seatLocks st) (seatLocks (fst (confirmBooking rt env rid pid now st)))"
proof -
  have s: "keeps r locks (saveLock rid (\<lambda>l. l\<lparr>paymentIntentId := pid\<rparr>) locks)" for locks
    by (rule keeps_saveLock) simp_all
  show ?thesis
    by (simp add: confirmBooking_def s keeps_cancelReservation keeps_confirmSeatsAndBook
        split: option.splits)
qed

lemma seatLocks_markBookings [simp]: "seatLocks (markBookings rid ps pid st) = seatLocks st"
  by (simp add: markBookings_def)

lemma keeps_callback:
  "keeps r (seatLocks st) (seatLocks (fst (handleDialogGenieCallback rt env pid status now st)))"
proof (cases "callbackLookup pid st")
  case None
  then show ?thesis by (simp add: handleDialogGenieCallback_def)
next
  case (Some seatLock)
  show ?thesis
  proof (cases "status = ''SUCCESS''")
    case False
    with Some show ?thesis by (simp add: handleDialogGenieCallback_def)
  next
    case True
    show ?thesis
    proof (cases "findLockById (lock_id seatLock) (seatLocks st)")
      case None
      with Some True show ?thesis by (simp add: handleDialogGenieCallback_def)
    next
      case (Some fresh)
      let ?st1 = "st\<lparr>seatLocks := saveLock (lock_id fresh)
                      (\<lambda>l. l\<lparr>numericState := PAYMENT_SUCCESS\<rparr>) (seatLocks st)\<rparr>"
      have k1: "keeps r (seatLocks st) (seatLocks ?st1)"
        by (simp add: keeps_saveLock afterCart_def)
      obtain st2 res where c: "confirmBooking rt env (lock_id fresh) (Some pid) now ?st1 = (st2, res)"
        by (cases "confirmBooking rt env (lock_id fresh) (Some pid) now ?st1") auto
      have k2: "keeps r (seatLocks ?st1) (seatLocks st2)"
        using keeps_confirmBooking[of r ?st1 rt env "lock_id fresh" "Some pid" now] c by simp
      have k3: "keeps r (seatLocks st2)
          (seatLocks (fst (confirmBooking rt env (lock_id fresh) (Some pid) now st2)))"
        by (rule keeps_confirmBooking)
      note k12 = keeps_trans[OF k1 k2]
      note k123 = keeps_trans[OF k12 k3]
      from \<open>callbackLookup pid st = Some seatLock\<close> True Some c k12 k123 show ?thesis
        by (cases res) (simp_all add: handleDialogGenieCallback_def Let_def)
    qed
  qed
qed

lemma keeps_redirectLookup:
  "keeps r (seatLocks st) (seatLocks (fst (redirectLookup localId paymentId st)))"
proof -
  have s: "keeps r locks (saveLock i (\<lambda>l. l\<lparr>paymentIntentId := paymentId\<rparr>) locks)" for locks i
    by (rule keeps_saveLock) simp_all
  show ?thesis
    by (simp add: redirectLookup_def Let_def s split: option.splits)
qed

lemma keeps_redirect:
  "keeps r (seatLocks st) (seatLocks (fst (handleDialogGenieRedirect rt env query now st)))"
proof -
  let ?paymentId = "firstTruthy [q_id query, q_transactionId query, q_paymentId query,
                                   q_transactionReference query]"
  let ?localId = "firstTruthy [q_localId query, q_reservationId query]"
  obtain st1 found where l: "redirectLookup ?localId ?paymentId st = (st1, found)"
    by (cases "redirectLookup ?localId ?paymentId st") auto
  have k1: "keeps r (seatLocks st) (seatLocks st1)"
    using keeps_redirectLookup[of r st ?localId ?paymentId] l by simp
  let ?status = "(if truthy (q_status query) then the (q_status query)
                    else if q_success query = Some ''true'' then ''SUCCESS''
                    else if q_success query = Some ''false'' then ''FAILED''
                    else ''SUCCESS'')"
  show ?thesis
  proof (cases found)
    case None
    with l k1 show ?thesis by (simp add: handleDialogGenieRedirect_def Let_def)
  next
    case (Some seatLock)
    let ?final = "(case firstTruthy [?paymentId, paymentIntentId seatLock] of
                       None \<Rightarrow> [] | Some p \<Rightarrow> p)"
    obtain st2 res where cb: "handleDialogGenieCallback rt env ?final ?status now st1 = (st2, res)"
      by (cases "handleDialogGenieCallback rt env ?final ?status now st1") auto
    have k2: "keeps r (seatLocks st1) (seatLocks st2)"
      using keeps_callback[of r st1 rt env ?final ?status now] cb by simp
    have "fst (handleDialogGenieRedirect rt env query now st) = st2"
      using l Some cb by (cases res) (simp_all add: handleDialogGenieRedirect_def Let_def)
    with keeps_trans[OF k1 k2] show ?thesis by simp
  qed
qed

lemma keeps_step: "keeps r (seatLocks st) (seatLocks (step rt st op))"
  by (cases op)
     (simp_all add: keeps_createReservation keeps_updateTickets keeps_createPaymentIntent
        keeps_confirmBooking keeps_cancelReservation keeps_sweep keeps_callback keeps_redirect)

lemma keeps_run: "keeps r (seatLocks st) (seatLocks (run rt st ops))"
proof (induction ops arbitrary: st)
  case Nil
  show ?case by (simp add: run_def)
next
  case (Cons op ops)
  from keeps_trans[OF keeps_step Cons.IH[unfolded run_def]] show ?case
    by (simp add: run_def)
qed

text \<open>No operation removes a reservation from the collection.\<close>

lemma step_keeps_reservation:
  "findLockById r (seatLocks st) \<noteq> None \<Longrightarrow> findLockById r (seatLocks (step rt st op)) \<noteq> None"
  using keeps_step[of r st rt op] by (auto simp: keeps_def split: option.splits)

text \<open>
  Claim C6.  When the reservation of id \<open>r\<close> has numeric state -2 (gateway), -3 (timed
  out) or 1 (paid), then after every sequence of operations (create, update tickets,
  create payment intent, confirm, cancel, sweep, payment callback, payment redirect,
  with any arguments, clock values and answers of the collaborators) the reservation is
  still in the store and its numeric state is again one of the three, so not -1 (cart).
\<close>

theorem numericState_never_back_to_cart:
  assumes "findLockById r (seatLocks st) = Some l"
      and "afterCart (numericState l)"
  shows "\<exists>l'. findLockById r (seatLocks (run rt st ops)) = Some l'
            \<and> afterCart (numericState l') \<and> numericState l' \<noteq> CART_TO_PAYMENT"
  using keeps_run[of r st rt ops] assms
  by (auto simp: keeps_def afterCart_def split: option.splits)

theorem numericState_never_back_to_cart_witness:
  "\<exists>l'. findLockById ''R1'' (seatLocks (run exampleRuntime paidTwiceSys
           [OpSweep 200, OpCancelReservation ''R1'',
            OpCreatePaymentIntent ''R1'' None (gatewayAnswers ''T3'')])) = Some l'
        \<and> afterCart (numericState l') \<and> numericState l' \<noteq> CART_TO_PAYMENT"
proof -
  have f: "findLockById ''R1'' (seatLocks paidTwiceSys)
      = Some (cartLock\<lparr>numericState := IN_PAYMENT_GATEWAY, paymentIntentId := Some ''T2''\<rparr>)"
    by (simp add: paidTwiceSys_value findLockById_def findOne_def cartSys_def cartLock_def)
  have a: "afterCart (numericState (cartLock\<lparr>numericState := IN_PAYMENT_GATEWAY,
      paymentIntentId := Some ''T2''\<rparr>))"
    by (simp add: afterCart_def)
  from numericState_never_back_to_cart[OF f a] show ?thesis .
qed

end
